theory Spec2Isabelle
  imports Complex_Main "HOL-Library.AList" "HOL-Library.Sublist"
begin

section \<open>History manager of the video forensics tool (history_manager.py)\<close>

text \<open>
  The class \<^verbatim>\<open>HistoryManager\<close> keeps one JSON document with the list of analysis
  records, one directory of copied artifacts per record and a table of run settings.
  Every method is a function from the state of the outside world to a result and a new
  state. A method that raises returns \<open>Inl\<close> of the exception; the state that an
  exception leaves behind is not tracked.
\<close>

subsection \<open>Python values\<close>

datatype py_error =
    AttributeError | TypeError | FileNotFoundError | FileExistsError
  | IsADirectoryError | NotADirectoryError | SameFileError | PermissionError
  | UnicodeDecodeError

text \<open>
  A number of JSON: an \<^verbatim>\<open>int\<close>, or a finite \<^verbatim>\<open>float\<close> by its exact value. Python tells
  \<^verbatim>\<open>1\<close> from \<^verbatim>\<open>1.0\<close>.
\<close>

datatype number = PyInt int | PyFloat rat

text \<open>A value as \<^verbatim>\<open>json.load\<close> returns it; an object keeps the order of its keys.\<close>

datatype json =
    JNull | JBool bool | JNum number | JStr string
  | JArr "json list" | JObj "(string \<times> json) list"

text \<open>An attribute that \<^verbatim>\<open>hasattr\<close> may find missing on the result object.\<close>

datatype 'a attr = Missing | Present 'a

type_synonym path = string

text \<open>
  One localization event, a dict in the source. A field is \<open>None\<close> when the dict has
  no such key.
\<close>

record localization =
  loc_event :: "string option"
  loc_start_ts :: "number option"
  loc_end_ts :: "number option"
  loc_duration :: "number option"
  loc_confidence :: "json option"
  loc_metrics :: "(string \<times> json) list option"
  loc_image :: "path option"

text \<open>
  The \<^verbatim>\<open>AnalysisResult\<close> object handed over by the analysis engine, with the attributes
  this module reads. In \<open>plots\<close> a value that is neither \<^verbatim>\<open>str\<close> nor \<^verbatim>\<open>Path\<close> is \<open>None\<close>.
\<close>

record analysis_result =
  preservation_hash :: string
  summary :: json
  metadata :: json
  forensic_evidence_matrix :: "json attr"
  localization_details :: "json attr"
  pipeline_assessment :: "json attr"
  localizations :: "localization list"
  plots :: "(string \<times> path option) list"
  pdf_report_path :: "path option"
  html_report_path :: "path option attr"
  json_report_path :: "path option attr"

record report_paths =
  rp_pdf :: "string option"
  rp_html :: "string option"
  rp_json :: "string option"

text \<open>The dict \<^verbatim>\<open>history_entry\<close> of \<^verbatim>\<open>save_analysis\<close>, one field per key.\<close>

record entry =
  e_id :: string
  e_timestamp :: string
  e_video_name :: string
  e_artifacts_folder :: path
  e_preservation_hash :: string
  e_summary :: json
  e_metadata :: json
  e_forensic_evidence_matrix :: json
  e_localization_details :: json
  e_pipeline_assessment :: json
  e_localizations :: "localization list"
  e_localizations_count :: nat
  e_anomaly_types :: "(string \<times> nat) list"
  e_saved_artifacts :: "(string \<times> path) list"
  e_additional_info :: "(string \<times> json) list"
  e_report_paths :: report_paths

subsection \<open>Strings\<close>

text \<open>
  \<^verbatim>\<open>s.replace(old, new)\<close>: every occurrence of \<open>old\<close>, found from the left and not
  overlapping an earlier one, becomes \<open>new\<close>.
\<close>

function str_replace :: "string \<Rightarrow> string \<Rightarrow> string \<Rightarrow> string" where
  "str_replace old new [] = (if old = [] then new else [])"
| "str_replace old new (c # cs) =
     (if old = [] then new @ c # str_replace old new cs
      else if prefix old (c # cs)
      then new @ str_replace old new (drop (length old) (c # cs))
      else c # str_replace old new cs)"
  by pat_completeness auto
termination
  by (relation "measure (\<lambda>(old, new, s). length s)") (auto simp: Suc_diff_le)

definition digit_char :: "nat \<Rightarrow> char" where
  "digit_char d = ''0123456789'' ! d"

text \<open>\<^verbatim>\<open>str(n)\<close> of a natural number.\<close>

function str_nat :: "nat \<Rightarrow> string" where
  "str_nat n = (if n < 10 then [digit_char n] else str_nat (n div 10) @ [digit_char (n mod 10)])"
  by pat_completeness auto
termination
  by (relation "measure id") auto

declare str_nat.simps [simp del]

subsection \<open>The file system\<close>

text \<open>
  Files and directories by their path, in the order a directory listing gives them.
  A path is a canonical POSIX path: two strings name the same file only when they are
  equal. A path lies under a directory when it starts with the directory and a slash.
\<close>

text \<open>
  What a file holds, by what \<^verbatim>\<open>json.load\<close> makes of it: the text that \<^verbatim>\<open>json.dump\<close> writes
  for a list of records, which is read back as that list; other text, on which
  \<^verbatim>\<open>json.load\<close> raises \<^verbatim>\<open>JSONDecodeError\<close>; bytes that are no text, on which reading raises
  \<^verbatim>\<open>UnicodeDecodeError\<close>. A file with JSON of another shape is outside the model.
\<close>

datatype fdata = Records "entry list" | NotJson string | NotText string

datatype fnode = FileNode fdata | DirNode

type_synonym filesystem = "(path \<times> fnode) list"

definition path_exists :: "filesystem \<Rightarrow> path \<Rightarrow> bool" where
  "path_exists fs p = (map_of fs p \<noteq> None)"

definition is_dir :: "filesystem \<Rightarrow> path \<Rightarrow> bool" where
  "is_dir fs p = (map_of fs p = Some DirNode)"

definition is_file :: "filesystem \<Rightarrow> path \<Rightarrow> bool" where
  "is_file fs p = (case map_of fs p of Some (FileNode c) \<Rightarrow> True | _ \<Rightarrow> False)"

definition lies_under :: "path \<Rightarrow> path \<Rightarrow> bool" where
  "lies_under d p = (prefix (d @ ''/'') p \<and> p \<noteq> d @ ''/'')"

text \<open>\<^verbatim>\<open>Path(p).name\<close>, the last component.\<close>

definition basename :: "path \<Rightarrow> string" where
  "basename p = rev (takeWhile (\<lambda>c. c \<noteq> CHR ''/'') (rev p))"

text \<open>The directory a path lies in; \<open>None\<close> for a bare name, which lies in the working directory.\<close>

definition parent :: "path \<Rightarrow> path option" where
  "parent p =
     (if CHR ''/'' \<in> set p
      then Some (rev (tl (dropWhile (\<lambda>c. c \<noteq> CHR ''/'') (rev p))))
      else None)"

text \<open>The operator \<^verbatim>\<open>/\<close> of \<^verbatim>\<open>pathlib\<close> with a relative right-hand side.\<close>

definition path_join :: "path \<Rightarrow> string \<Rightarrow> path" where
  "path_join d name = (if name = [] then d else d @ ''/'' @ name)"

text \<open>
  What opening a path for writing or creating it needs of its parent: the working
  directory and the root always exist.
\<close>

definition parent_error :: "filesystem \<Rightarrow> path \<Rightarrow> py_error option" where
  "parent_error fs p =
     (case parent p of
        None \<Rightarrow> None
      | Some d \<Rightarrow>
          if d = [] then None
          else (case map_of fs d of
                  None \<Rightarrow> Some FileNotFoundError
                | Some (FileNode c) \<Rightarrow> Some NotADirectoryError
                | Some DirNode \<Rightarrow> None))"

text \<open>\<^verbatim>\<open>Path.mkdir(exist_ok=True)\<close>: no parents are created.\<close>

definition mkdir :: "filesystem \<Rightarrow> path \<Rightarrow> py_error + filesystem" where
  "mkdir fs p =
     (case map_of fs p of
        Some DirNode \<Rightarrow> Inr fs
      | Some (FileNode c) \<Rightarrow> Inl FileExistsError
      | None \<Rightarrow>
          (case parent_error fs p of
             Some e \<Rightarrow> Inl e
           | None \<Rightarrow> Inr (AList.update p DirNode fs)))"

text \<open>
  \<^verbatim>\<open>open(p, 'w')\<close> and the write that follows: a directory cannot be opened, a file is
  overwritten, a new file needs the directory it lies in.
\<close>

definition open_write :: "filesystem \<Rightarrow> path \<Rightarrow> fdata \<Rightarrow> py_error + filesystem" where
  "open_write fs p d =
     (case map_of fs p of
        Some DirNode \<Rightarrow> Inl IsADirectoryError
      | Some (FileNode old) \<Rightarrow> Inr (AList.update p (FileNode d) fs)
      | None \<Rightarrow>
          (case parent_error fs p of
             Some e \<Rightarrow> Inl e
           | None \<Rightarrow> Inr (AList.update p (FileNode d) fs)))"

text \<open>
  \<^verbatim>\<open>shutil.copy(src, dst)\<close>: a destination that is a directory receives the file under
  the source's name. Source and destination must differ, the source must be a regular
  file, and the destination must be writable as a file.
\<close>

definition copy :: "filesystem \<Rightarrow> path \<Rightarrow> path \<Rightarrow> py_error + filesystem" where
  "copy fs src dst =
     (let dst' = (if is_dir fs dst then path_join dst (basename src) else dst)
      in if path_exists fs src \<and> src = dst' then Inl SameFileError
         else (case map_of fs src of
                 None \<Rightarrow> Inl FileNotFoundError
               | Some DirNode \<Rightarrow> Inl IsADirectoryError
               | Some (FileNode d) \<Rightarrow> open_write fs dst' d))"

text \<open>
  The system refuses to remove the paths in \<open>blocked\<close>: a tree can be removed when none
  of them exists at or under its root.
\<close>

definition removable :: "path list \<Rightarrow> filesystem \<Rightarrow> path \<Rightarrow> bool" where
  "removable blocked fs p =
     (\<not> list_ex (\<lambda>b. b = p \<or> lies_under p b) (filter (path_exists fs) blocked))"

text \<open>
  \<^verbatim>\<open>shutil.rmtree(p)\<close>: the directory and all that lies under it go. It raises when \<open>p\<close>
  is not a directory, and when something in the tree cannot be removed.
\<close>

definition rmtree :: "path list \<Rightarrow> filesystem \<Rightarrow> path \<Rightarrow> py_error + filesystem" where
  "rmtree blocked fs p =
     (case map_of fs p of
        None \<Rightarrow> Inl FileNotFoundError
      | Some (FileNode c) \<Rightarrow> Inl NotADirectoryError
      | Some DirNode \<Rightarrow>
          if removable blocked fs p
          then Inr (filter (\<lambda>(q, n). q \<noteq> p \<and> \<not> lies_under p q) fs)
          else Inl PermissionError)"

subsection \<open>The state of the outside world\<close>

text \<open>A row of the table \<^verbatim>\<open>settings\<close> of the SQLite database; \<open>sr_id\<close> is the primary key.\<close>

record settings_row =
  sr_id :: string
  sr_video_name :: string
  sr_timestamp :: string
  sr_fps_awal :: "json option"
  sr_fps_baru :: "json option"
  sr_ssim_thresh :: "json option"
  sr_z_thresh :: "json option"

text \<open>
  The history file is one of the \<open>files\<close>; the database \<^verbatim>\<open>analysis_settings.db\<close> is kept
  apart from them, as the rows of its table. \<open>uuid_stream\<close> and \<open>clock_stream\<close> hold what
  successive calls of \<^verbatim>\<open>uuid.uuid4()\<close> and \<^verbatim>\<open>datetime.now().isoformat()\<close> return; the
  counters say how many were taken.
\<close>

record world =
  files :: filesystem
  blocked :: "path list"
  settings :: "settings_row list"
  uuid_stream :: "nat \<Rightarrow> string"
  uuid_count :: nat
  clock_stream :: "nat \<Rightarrow> string"
  clock_count :: nat

text \<open>The attributes of \<^verbatim>\<open>self\<close> that the methods read.\<close>

record manager =
  history_file :: path
  history_folder :: path

subsection \<open>Counting anomaly kinds\<close>

definition event_type :: "localization \<Rightarrow> string" where
  "event_type loc =
     str_replace ''anomaly_'' [] (case loc_event loc of None \<Rightarrow> [] | Some ev \<Rightarrow> ev)"

definition count_step :: "(string \<times> nat) list \<Rightarrow> localization \<Rightarrow> (string \<times> nat) list" where
  "count_step counts loc =
     (case map_of counts (event_type loc) of
        Some n \<Rightarrow> AList.update (event_type loc) (n + 1) counts
      | None \<Rightarrow> counts)"

definition count_anomaly_types :: "analysis_result \<Rightarrow> (string \<times> nat) list" where
  "count_anomaly_types result =
     foldl count_step
       [(''duplication'', 0), (''insertion'', 0), (''discontinuity'', 0)]
       (localizations result)"

subsection \<open>Copying artifacts\<close>

text \<open>The truth value of an optional path: \<^verbatim>\<open>None\<close> and the empty string are false.\<close>

definition truthy_path :: "path option \<Rightarrow> bool" where
  "truthy_path po = (case po of None \<Rightarrow> False | Some p \<Rightarrow> p \<noteq> [])"

type_synonym saved = "(string \<times> path) list"

text \<open>The loop over \<^verbatim>\<open>result.plots.items()\<close>.\<close>

fun save_plots ::
  "filesystem \<Rightarrow> path \<Rightarrow> (string \<times> path option) list \<Rightarrow> saved \<Rightarrow> py_error + (saved \<times> filesystem)"
where
  "save_plots fs folder [] sv = Inr (sv, fs)"
| "save_plots fs folder ((plot_name, None) # rest) sv = save_plots fs folder rest sv"
| "save_plots fs folder ((plot_name, Some plot_path) # rest) sv =
     (if path_exists fs plot_path
      then (let target_path = path_join folder (basename plot_path)
            in case copy fs plot_path target_path of
                 Inl e \<Rightarrow> Inl e
               | Inr fs' \<Rightarrow>
                   save_plots fs' folder rest (AList.update plot_name target_path sv))
      else save_plots fs folder rest sv)"

definition frame_key :: "nat \<Rightarrow> string" where
  "frame_key i = ''anomaly_frame_'' @ str_nat i"

definition frame_target :: "path \<Rightarrow> nat \<Rightarrow> path" where
  "frame_target folder i = path_join folder (''sample_anomaly_frame_'' @ str_nat i @ ''.jpg'')"

text \<open>
  The test \<^verbatim>\<open>loc.get('image') and os.path.exists(loc['image'])\<close>: the event carries an
  image path and the path exists.
\<close>

definition resolvable :: "filesystem \<Rightarrow> localization \<Rightarrow> bool" where
  "resolvable fs loc = (truthy_path (loc_image loc) \<and> path_exists fs (the (loc_image loc)))"

text \<open>
  The body of the loop over \<^verbatim>\<open>enumerate(localizations[:3])\<close>, from index \<open>i\<close> on.
\<close>

fun save_frames ::
  "nat \<Rightarrow> filesystem \<Rightarrow> path \<Rightarrow> localization list \<Rightarrow> saved \<Rightarrow> py_error + (saved \<times> filesystem)"
where
  "save_frames i fs folder [] sv = Inr (sv, fs)"
| "save_frames i fs folder (loc # rest) sv =
     (if resolvable fs loc
      then (case copy fs (the (loc_image loc)) (frame_target folder i) of
              Inl e \<Rightarrow> Inl e
            | Inr fs' \<Rightarrow>
                save_frames (Suc i) fs' folder rest
                  (AList.update (frame_key i) (frame_target folder i) sv))
      else save_frames (Suc i) fs folder rest sv)"

text \<open>One of the three generated reports (pdf, html, json).\<close>

definition save_report ::
  "filesystem \<Rightarrow> path \<Rightarrow> string \<Rightarrow> path option \<Rightarrow> saved \<Rightarrow> py_error + (saved \<times> filesystem)"
where
  "save_report fs folder key report_path sv =
     (if truthy_path report_path \<and> path_exists fs (the report_path)
      then (let target_path = path_join folder (basename (the report_path))
            in case copy fs (the report_path) target_path of
                 Inl e \<Rightarrow> Inl e
               | Inr fs' \<Rightarrow> Inr (AList.update key target_path sv, fs'))
      else Inr (sv, fs))"

text \<open>\<^verbatim>\<open>getattr(result, name, None)\<close> of an attribute holding a path or \<^verbatim>\<open>None\<close>.\<close>

definition getattr_path :: "path option attr \<Rightarrow> path option" where
  "getattr_path a = (case a of Missing \<Rightarrow> None | Present v \<Rightarrow> v)"

definition save_artifacts ::
  "filesystem \<Rightarrow> analysis_result \<Rightarrow> path \<Rightarrow> py_error + (saved \<times> filesystem)"
where
  "save_artifacts fs result folder =
     (case save_plots fs folder (plots result) [] of
        Inl e \<Rightarrow> Inl e
      | Inr (sv1, fs1) \<Rightarrow>
     (case save_frames 0 fs1 folder (take 3 (localizations result)) sv1 of
        Inl e \<Rightarrow> Inl e
      | Inr (sv2, fs2) \<Rightarrow>
     (case save_report fs2 folder ''pdf_report'' (pdf_report_path result) sv2 of
        Inl e \<Rightarrow> Inl e
      | Inr (sv3, fs3) \<Rightarrow>
     (case save_report fs3 folder ''html_report'' (getattr_path (html_report_path result)) sv3 of
        Inl e \<Rightarrow> Inl e
      | Inr (sv4, fs4) \<Rightarrow>
          save_report fs4 folder ''json_report'' (getattr_path (json_report_path result)) sv4))))"

subsection \<open>The record store\<close>

text \<open>The constructor: the artifact folder and the history file are created when absent.\<close>

definition init :: "manager \<Rightarrow> world \<Rightarrow> py_error + world" where
  "init self w =
     (case mkdir (files w) (history_folder self) of
        Inl e \<Rightarrow> Inl e
      | Inr fs1 \<Rightarrow>
          if path_exists fs1 (history_file self) then Inr (w\<lparr>files := fs1\<rparr>)
          else (case open_write fs1 (history_file self) (Records []) of
                  Inl e \<Rightarrow> Inl e
                | Inr fs2 \<Rightarrow> Inr (w\<lparr>files := fs2\<rparr>)))"

text \<open>
  The handler of \<^verbatim>\<open>load_history\<close>, entered on \<^verbatim>\<open>JSONDecodeError\<close> and on
  \<^verbatim>\<open>FileNotFoundError\<close>: the file is rewritten as the empty list. An error of its own
  \<^verbatim>\<open>open\<close> reaches the caller.
\<close>

definition reset_history :: "manager \<Rightarrow> world \<Rightarrow> py_error + (entry list \<times> world)" where
  "reset_history self w =
     (case open_write (files w) (history_file self) (Records []) of
        Inl e \<Rightarrow> Inl e
      | Inr fs' \<Rightarrow> Inr ([], w\<lparr>files := fs'\<rparr>))"

text \<open>
  \<^verbatim>\<open>load_history\<close>: \<^verbatim>\<open>except (json.JSONDecodeError, FileNotFoundError)\<close> catches a missing
  file and text that is no JSON. A path that is a directory and bytes that are no text
  raise errors that the clause does not name. Opening a missing file whose directory is
  missing too fails once more in the handler, with the error that \<open>open_write\<close> gives.
\<close>

definition load_history :: "manager \<Rightarrow> world \<Rightarrow> py_error + (entry list \<times> world)" where
  "load_history self w =
     (case map_of (files w) (history_file self) of
        Some DirNode \<Rightarrow> Inl IsADirectoryError
      | Some (FileNode (Records es)) \<Rightarrow> Inr (es, w)
      | Some (FileNode (NotText b)) \<Rightarrow> Inl UnicodeDecodeError
      | Some (FileNode (NotJson t)) \<Rightarrow> reset_history self w
      | None \<Rightarrow> reset_history self w)"

definition get_analysis :: "manager \<Rightarrow> world \<Rightarrow> string \<Rightarrow> py_error + (entry option \<times> world)" where
  "get_analysis self w analysis_id =
     (case load_history self w of
        Inl e \<Rightarrow> Inl e
      | Inr (history, w') \<Rightarrow> Inr (find (\<lambda>entry. e_id entry = analysis_id) history, w'))"

text \<open>\<^verbatim>\<open>x if hasattr(result, name) else None\<close>.\<close>

definition attr_or_null :: "json attr \<Rightarrow> json" where
  "attr_or_null a = (case a of Missing \<Rightarrow> JNull | Present v \<Rightarrow> v)"

text \<open>\<^verbatim>\<open>str(getattr(result, name, '')) or None\<close>: the string of \<^verbatim>\<open>None\<close> is not empty.\<close>

definition report_path_str :: "path option attr \<Rightarrow> string option" where
  "report_path_str a =
     (case a of
        Missing \<Rightarrow> None
      | Present None \<Rightarrow> Some ''None''
      | Present (Some p) \<Rightarrow> (if p = [] then None else Some p))"

text \<open>
  SQLite binds \<^verbatim>\<open>None\<close>, strings, floats and integers of 64 bits, and no list or dict.
\<close>

definition sqlite_bindable :: "json option \<Rightarrow> bool" where
  "sqlite_bindable v =
     (case v of
        Some (JArr xs) \<Rightarrow> False
      | Some (JObj kvs) \<Rightarrow> False
      | Some (JNum (PyInt n)) \<Rightarrow> - (2 ^ 63) \<le> n \<and> n < 2 ^ 63
      | _ \<Rightarrow> True)"

text \<open>
  The \<^verbatim>\<open>INSERT\<close> of \<^verbatim>\<open>save_analysis\<close> inside \<^verbatim>\<open>try ... except Exception: pass\<close>: a row
  that the database rejects is dropped.
\<close>

definition insert_settings :: "settings_row list \<Rightarrow> settings_row \<Rightarrow> settings_row list" where
  "insert_settings rows row =
     (if sr_id row \<in> set (map sr_id rows)
         \<or> \<not> (sqlite_bindable (sr_fps_awal row) \<and> sqlite_bindable (sr_fps_baru row)
              \<and> sqlite_bindable (sr_ssim_thresh row) \<and> sqlite_bindable (sr_z_thresh row))
      then rows else rows @ [row])"

text \<open>\<^verbatim>\<open>additional_info.get(key) if additional_info else None\<close>.\<close>

definition info_get :: "(string \<times> json) list option \<Rightarrow> string \<Rightarrow> json option" where
  "info_get additional_info key =
     (case additional_info of None \<Rightarrow> None | Some d \<Rightarrow> map_of d key)"

text \<open>The dict \<^verbatim>\<open>history_entry\<close> that \<^verbatim>\<open>save_analysis\<close> builds.\<close>

definition history_entry ::
  "analysis_result \<Rightarrow> string \<Rightarrow> (string \<times> json) list option \<Rightarrow> string \<Rightarrow> string \<Rightarrow> path
     \<Rightarrow> saved \<Rightarrow> entry"
where
  "history_entry result video_name additional_info analysis_id now artifact_folder
     saved_artifacts =
     \<lparr>e_id = analysis_id,
      e_timestamp = now,
      e_video_name = video_name,
      e_artifacts_folder = artifact_folder,
      e_preservation_hash = preservation_hash result,
      e_summary = summary result,
      e_metadata = metadata result,
      e_forensic_evidence_matrix = attr_or_null (forensic_evidence_matrix result),
      e_localization_details = attr_or_null (localization_details result),
      e_pipeline_assessment = attr_or_null (pipeline_assessment result),
      e_localizations = localizations result,
      e_localizations_count = length (localizations result),
      e_anomaly_types = count_anomaly_types result,
      e_saved_artifacts = saved_artifacts,
      e_additional_info = (case additional_info of None \<Rightarrow> [] | Some d \<Rightarrow> d),
      e_report_paths =
        \<lparr>rp_pdf = (if truthy_path (pdf_report_path result)
                   then pdf_report_path result else None),
         rp_html = report_path_str (html_report_path result),
         rp_json = report_path_str (json_report_path result)\<rparr>\<rparr>"

definition save_analysis ::
  "manager \<Rightarrow> world \<Rightarrow> analysis_result \<Rightarrow> string \<Rightarrow> (string \<times> json) list option
     \<Rightarrow> py_error + (string \<times> world)"
where
  "save_analysis self w result video_name additional_info =
     (let analysis_id = uuid_stream w (uuid_count w);
          artifact_folder = path_join (history_folder self) analysis_id
      in case mkdir (files w) artifact_folder of
           Inl e \<Rightarrow> Inl e
         | Inr fs1 \<Rightarrow>
        (case save_artifacts fs1 result artifact_folder of
           Inl e \<Rightarrow> Inl e
         | Inr (saved_artifacts, fs2) \<Rightarrow>
             (let entry = history_entry result video_name additional_info analysis_id
                            (clock_stream w (clock_count w)) artifact_folder saved_artifacts;
                  w1 = w\<lparr>files := fs2,
                          uuid_count := Suc (uuid_count w),
                          clock_count := Suc (clock_count w)\<rparr>
              in case load_history self w1 of
                   Inl e \<Rightarrow> Inl e
                 | Inr (history, w2) \<Rightarrow>
                (case open_write (files w2) (history_file self) (Records (history @ [entry])) of
                   Inl e \<Rightarrow> Inl e
                 | Inr fs3 \<Rightarrow>
                     (let row = \<lparr>sr_id = analysis_id,
                                 sr_video_name = video_name,
                                 sr_timestamp = e_timestamp entry,
                                 sr_fps_awal = info_get additional_info ''fps_awal'',
                                 sr_fps_baru = info_get additional_info ''fps_baru'',
                                 sr_ssim_thresh = info_get additional_info ''ssim_threshold'',
                                 sr_z_thresh = info_get additional_info ''z_threshold''\<rparr>
                      in Inr (analysis_id,
                              w2\<lparr>files := fs3,
                                 settings := insert_settings (settings w2) row\<rparr>))))))"

text \<open>
  \<^verbatim>\<open>delete_analysis\<close>: the call of \<^verbatim>\<open>shutil.rmtree\<close> stands before the rewrite of the
  history file and is not inside any \<^verbatim>\<open>try\<close>.
\<close>

definition delete_analysis :: "manager \<Rightarrow> world \<Rightarrow> string \<Rightarrow> py_error + (bool \<times> world)" where
  "delete_analysis self w analysis_id =
     (case load_history self w of
        Inl e \<Rightarrow> Inl e
      | Inr (history, w1) \<Rightarrow>
     (case get_analysis self w1 analysis_id of
        Inl e \<Rightarrow> Inl e
      | Inr (None, w2) \<Rightarrow> Inr (False, w2)
      | Inr (Some entry, w2) \<Rightarrow>
          (let artifact_folder = e_artifacts_folder entry;
               updated_history = filter (\<lambda>entry. e_id entry \<noteq> analysis_id) history
           in case (if path_exists (files w2) artifact_folder \<and> is_dir (files w2) artifact_folder
                    then rmtree (blocked w2) (files w2) artifact_folder
                    else Inr (files w2)) of
                Inl e \<Rightarrow> Inl e
              | Inr fs1 \<Rightarrow>
                  (case open_write fs1 (history_file self) (Records updated_history) of
                     Inl e \<Rightarrow> Inl e
                   | Inr fs2 \<Rightarrow> Inr (True, w2\<lparr>files := fs2\<rparr>)))))"

definition delete_all_history :: "manager \<Rightarrow> world \<Rightarrow> py_error + (nat \<times> world)" where
  "delete_all_history self w =
     (case load_history self w of
        Inl e \<Rightarrow> Inl e
      | Inr (history, w1) \<Rightarrow>
          (let count = length history
           in case (if path_exists (files w1) (history_folder self)
                    then rmtree (blocked w1) (files w1) (history_folder self)
                    else Inr (files w1)) of
                Inl e \<Rightarrow> Inl e
              | Inr fs1 \<Rightarrow>
             (case mkdir fs1 (history_folder self) of
                Inl e \<Rightarrow> Inl e
              | Inr fs2 \<Rightarrow>
             (case open_write fs2 (history_file self) (Records []) of
                Inl e \<Rightarrow> Inl e
              | Inr fs3 \<Rightarrow> Inr (count, w1\<lparr>files := fs3\<rparr>)))))"

subsection \<open>The report renderer\<close>

text \<open>
  A string is the UTF-8 text of the Python string. Four built-ins of Python are parameters
  of the renderer, each a function of its argument: \<^verbatim>\<open>str(v)\<close> of a value that is not a
  string, the format \<^verbatim>\<open>.2f\<close> of a number,
  \<^verbatim>\<open>datetime.fromisoformat(s).strftime("%d %B %Y, %H:%M:%S")\<close> under the locale of the
  process (\<open>None\<close> when it raises \<^verbatim>\<open>ValueError\<close>), and \<^verbatim>\<open>s.title()\<close>.
\<close>

record py_builtins =
  py_str :: "json \<Rightarrow> string"
  py_format_2f :: "number \<Rightarrow> string"
  py_strftime :: "string \<Rightarrow> string option"
  py_title :: "string \<Rightarrow> string"

text \<open>A value inside an f-string.\<close>

definition py_str_of :: "py_builtins \<Rightarrow> json \<Rightarrow> string" where
  "py_str_of py v = (case v of JStr s \<Rightarrow> s | _ \<Rightarrow> py_str py v)"

text \<open>\<^verbatim>\<open>v.get(key, default)\<close>: only a dict has the method.\<close>

definition dict_get :: "json \<Rightarrow> string \<Rightarrow> json \<Rightarrow> py_error + json" where
  "dict_get v key dflt =
     (case v of
        JObj kvs \<Rightarrow> Inr (case map_of kvs key of None \<Rightarrow> dflt | Some x \<Rightarrow> x)
      | _ \<Rightarrow> Inl AttributeError)"

text \<open>The truth value of a value in \<^verbatim>\<open>if v:\<close>.\<close>

definition py_truthy :: "json \<Rightarrow> bool" where
  "py_truthy v =
     (case v of
        JNull \<Rightarrow> False | JBool b \<Rightarrow> b
      | JNum (PyInt n) \<Rightarrow> n \<noteq> 0 | JNum (PyFloat x) \<Rightarrow> x \<noteq> 0
      | JStr s \<Rightarrow> s \<noteq> [] | JArr xs \<Rightarrow> xs \<noteq> [] | JObj kvs \<Rightarrow> kvs \<noteq> [])"

text \<open>
  The items of \<^verbatim>\<open>for x in v\<close>: a string gives its characters, a dict its keys, a number
  cannot be iterated.
\<close>

definition py_iter :: "json \<Rightarrow> py_error + json list" where
  "py_iter v =
     (case v of
        JArr xs \<Rightarrow> Inr xs
      | JStr s \<Rightarrow> Inr (map (\<lambda>c. JStr [c]) s)
      | JObj kvs \<Rightarrow> Inr (map (\<lambda>(k, x). JStr k) kvs)
      | _ \<Rightarrow> Inl TypeError)"

text \<open>\<^verbatim>\<open>needle in v\<close> for a string \<open>needle\<close>.\<close>

definition py_contains :: "string \<Rightarrow> json \<Rightarrow> py_error + bool" where
  "py_contains needle v =
     (case v of
        JStr s \<Rightarrow> Inr (sublist needle s)
      | JArr xs \<Rightarrow> Inr (JStr needle \<in> set xs)
      | JObj kvs \<Rightarrow> Inr (needle \<in> set (map fst kvs))
      | _ \<Rightarrow> Inl TypeError)"

text \<open>
  \<^verbatim>\<open>s[:n]\<close>: the first \<open>n\<close> characters of a string, each with the bytes that continue it
  in UTF-8.
\<close>

fun take_chars :: "nat \<Rightarrow> string \<Rightarrow> string" where
  "take_chars n [] = []"
| "take_chars n (c # cs) =
     (if 128 \<le> (of_char c :: nat) \<and> (of_char c :: nat) < 192 then c # take_chars n cs
      else (case n of 0 \<Rightarrow> [] | Suc m \<Rightarrow> c # take_chars m cs))"

text \<open>\<^verbatim>\<open>"\n".join(html)\<close>.\<close>

fun join_lines :: "string list \<Rightarrow> string" where
  "join_lines [] = []"
| "join_lines [x] = x"
| "join_lines (x # y # ys) = x @ [CHR 0x0A] @ join_lines (y # ys)"

record anomaly_description =
  ad_title :: string
  ad_icon :: string
  ad_color :: string
  ad_simple :: string
  ad_technical :: string
  ad_implication :: string
  ad_example :: string

definition get_anomaly_description :: "string \<Rightarrow> anomaly_description" where
  "get_anomaly_description anomaly_type =
     (if anomaly_type = ''duplication'' then
        \<lparr>ad_title = ''Duplikasi Frame'',
         ad_icon = [CHR 0xEF, CHR 0xA3, CHR 0xBF, CHR 0xC3, CHR 0xBC, CHR 0xC3, CHR 0xAE, CHR 0xC3, CHR 0x85],
         ad_color = ''#FF6B6B'',
         ad_simple = ''Frame yang sama diulang beberapa kali dalam video.'',
         ad_technical = ''Dideteksi melalui perbandingan pHash dan dikonfirmasi dengan SIFT+RANSAC yang menemukan kecocokan fitur yang sangat tinggi antar frame.'',
         ad_implication = ''Ini bisa menjadi indikasi untuk memperpanjang durasi secara artifisial atau untuk menyembunyikan/menutupi konten yang telah dihapus di antara frame yang diduplikasi.'',
         ad_example = ''Seperti Anda menyalin sebuah halaman dari buku dan menempelkannya lagi di tempat lain untuk membuat buku terlihat lebih tebal.''\<rparr>
      else if anomaly_type = ''discontinuity'' then
        \<lparr>ad_title = ''Diskontinuitas Video'',
         ad_icon = [CHR 0xE2, CHR 0x80, CHR 0x9A, CHR 0xC3, CHR 0xBA, CHR 0xC3, CHR 0x87, CHR 0xC3, CHR 0x94, CHR 0xE2, CHR 0x88, CHR 0x8F, CHR 0xC3, CHR 0xA8],
         ad_color = ''#45B7D1'',
         ad_simple = ''Terjadi 'lompatan' atau patahan mendadak dalam aliran visual atau gerakan video.'',
         ad_technical = ''Dideteksi melalui penurunan drastis pada skor SSIM (kemiripan struktural) atau lonjakan tajam pada magnitudo Optical Flow (aliran gerakan).'',
         ad_implication = ''Seringkali ini adalah tanda kuat dari pemotongan (cut) dan penyambungan (paste) video. Aliran alami video terganggu.'',
         ad_example = ''Bayangkan sebuah kalimat di mana beberapa kata di tengahnya hilang, membuat kalimatnya terasa aneh dan melompat.''\<rparr>
      else if anomaly_type = ''insertion'' then
        \<lparr>ad_title = ''Penyisipan Konten'',
         ad_icon = [CHR 0xE2, CHR 0x80, CHR 0x9A, CHR 0xC3, CHR 0xBB, CHR 0xC3, CHR 0xAF],
         ad_color = ''#4ECDC4'',
         ad_simple = ''Adanya frame atau segmen baru yang tidak ada di video asli/baseline.'',
         ad_technical = ''Dideteksi secara definitif dengan membandingkan hash setiap frame dari video bukti dengan video baseline. Frame yang ada di bukti tapi tidak di baseline dianggap sebagai sisipan.'',
         ad_implication = ''Ini adalah bukti kuat dari penambahan konten yang bisa mengubah konteks atau narasi video secara signifikan.'',
         ad_example = ''Seperti menambahkan sebuah paragraf karangan Anda sendiri ke tengah-tengah novel karya orang lain.''\<rparr>
      else
        \<lparr>ad_title = ''Anomali Lain'',
         ad_icon = [CHR 0xE2, CHR 0x80, CHR 0x9A, CHR 0xC3, CHR 0xB9, CHR 0xC3, CHR 0xAC],
         ad_color = ''#808080'',
         ad_simple = ''Jenis anomali tidak dikenali.'',
         ad_technical = ''-'',
         ad_implication = ''-'',
         ad_example = ''-''\<rparr>)"

definition section_header :: "string \<Rightarrow> nat \<Rightarrow> string" where
  "section_header title level =
     ''<h'' @ str_nat level @ '' style='color:#0B3D91;border-bottom:1px solid #ddd;padding-bottom:8px;margin-top:25px;'>'' @ title @ ''</h'' @ str_nat level @ ''>''"

definition get_artifact_relative_path :: "entry \<Rightarrow> string \<Rightarrow> string option" where
  "get_artifact_relative_path entry path_key =
     (case map_of (e_saved_artifacts entry) path_key of
        Some p \<Rightarrow> Some (''artifacts/'' @ basename p)
      | None \<Rightarrow> None)"

definition format_timestamp :: "py_builtins \<Rightarrow> string \<Rightarrow> string" where
  "format_timestamp py iso_timestamp =
     (case py_strftime py iso_timestamp of Some s \<Rightarrow> s | None \<Rightarrow> iso_timestamp)"

definition reliability_colour :: "json \<Rightarrow> py_error + string" where
  "reliability_colour reliability =
     (case py_contains ''Tinggi'' reliability of
        Inl e \<Rightarrow> Inl e
      | Inr True \<Rightarrow> Inr ''#28a745''
      | Inr False \<Rightarrow>
          (case py_contains ''Sedang'' reliability of
             Inl e \<Rightarrow> Inl e
           | Inr True \<Rightarrow> Inr ''#ffc107''
           | Inr False \<Rightarrow> Inr ''#dc3545''))"

text \<open>The list that \<^verbatim>\<open>html\<close> starts with, up to the executive summary.\<close>

definition report_head :: "py_builtins \<Rightarrow> entry \<Rightarrow> json \<Rightarrow> string \<Rightarrow> string list" where
  \<open>report_head py entry reliability reliability_color =
     [''<!DOCTYPE html>'',
      ''<html lang='id'>'',
      ''<head>'',
      ''    <meta charset='utf-8'>'',
      ''    <meta name='viewport' content='width=device-width, initial-scale=1.0'>'',
      ''    <title>Laporan Forensik Video - '' @ e_video_name entry @ ''</title>'',
      ''    <style>'',
      ''        body { font-family: 'Segoe UI', Tahoma, Geneva, Verdana, sans-serif; line-height: 1.6; color: #333; max-width: 1200px; margin: 0 auto; padding: 20px; }'',
      ''        h1, h2, h3, h4 { color: #0B3D91; }'',
      ''        h1 { text-align: center; border-bottom: 2px solid #0B3D91; padding-bottom: 10px; }'',
      ''        img { max-width: 100%; height: auto; border-radius: 5px; margin: 15px 0; box-shadow: 0 2px 5px rgba(0,0,0,0.1); }'',
      ''        .metadata { background-color: #f8f9fa; padding: 15px; border-radius: 8px; margin: 20px 0; border-left: 5px solid #0B3D91; }'',
      ''        .reliability-badge { display: inline-block; padding: 8px 15px; color: white; font-weight: bold; border-radius: 4px; margin: 10px 0; }'',
      ''        .two-column { display: flex; flex-wrap: wrap; gap: 20px; }'',
      ''        .two-column > div { flex: 1; min-width: 300px; }'',
      ''        .explanation-box { background-color: #f0f7ff; padding: 15px; border-radius: 8px; margin: 15px 0; border-left: 4px solid #0c6dd6; }'',
      ''        .disclaimer { background-color: #ffe6cc; padding: 15px; border-radius: 8px; margin: 20px 0; font-style: italic; }'',
      ''        .method-card { background-color: white; border: 1px solid #ddd; border-radius: 8px; padding: 15px; margin: 10px 0; }'',
      ''        .method-card h3 { margin-top: 0; border-bottom: 1px solid #eee; padding-bottom: 8px; }'',
      ''        .anomaly-type { margin-bottom: 20px; padding-bottom: 10px; border-bottom: 1px solid #eee; }'',
      ''        .findings-section { background-color: #f8f9fa; padding: 20px; border-radius: 8px; margin: 20px 0; }'',
      ''        .metric { display: inline-block; background-color: #e9ecef; padding: 5px 10px; border-radius: 4px; margin: 3px; font-size: 0.9em; }'',
      ''        .footer { text-align: center; margin-top: 40px; padding-top: 20px; border-top: 1px solid #ddd; font-size: 0.9em; color: #666; }'',
      ''    </style>'',
      ''</head>'',
      ''<body>'',
      ''<h1>Laporan Analisis Forensik Video</h1>'',
      ''<div class='metadata'>'',
      ''    <p><strong>File:</strong> '' @ e_video_name entry @ ''</p>'',
      ''    <p><strong>Waktu Analisis:</strong> '' @ format_timestamp py (e_timestamp entry) @ ''</p>'',
      ''    <p><strong>Hash SHA-256:</strong> '' @ take_chars 20 (e_preservation_hash entry) @ ''...</p>'',
      ''    <p><strong>Penilaian Reliabilitas:</strong> <span class='reliability-badge' style='background-color:'' @ reliability_color @ [CHR 0x27] @ ''>'' @ py_str_of py reliability @ ''</span></p>'',
      ''</div>''] @
     [section_header ''Ringkasan Eksekutif'' 2] @
     [''<p>Analisis forensik video ini dilakukan menggunakan metodologi standar Digital Forensics Research Workshop (DFRWS) yang '',
      ''terdiri dari enam tahap: Identifikasi, Preservasi, Pengumpulan, Pemeriksaan, Analisis, dan Pelaporan. '',
      ''Sistem menggunakan metode utama <strong>K-Means</strong> dan <strong>Localization Tampering</strong> dengan '',
      ''dukungan <strong>Error Level Analysis (ELA)</strong> dan <strong>Scale-Invariant Feature Transform (SIFT)</strong>.</p>'']\<close>

definition disclaimer_lines :: "string list" where
  "disclaimer_lines =
     [''<div class='disclaimer'>'',
      ''    <p><strong>CATATAN PENTING:</strong> Hasil analisis yang disajikan dalam laporan ini adalah produk dari sistem otomatis '',
      ''    forensik video. Meskipun dirancang menggunakan metodologi dan algoritma ilmiah, semua temuan harus divalidasi dan '',
      ''    diinterpretasikan lebih lanjut oleh ahli forensik video yang berkualifikasi. Sistem hanya dapat mengidentifikasi anomali '',
      ''    berdasarkan pola statistik dan visual; interpretasi akhir tentang implikasi forensik dan konteks faktual dari anomali '',
      ''    tersebut memerlukan penilaian manusia.</p>'',
      ''</div>'']"

text \<open>The loop over \<^verbatim>\<open>primary_findings\<close>: every finding must be a dict.\<close>

fun finding_lines :: "py_builtins \<Rightarrow> json list \<Rightarrow> py_error + string list" where
  "finding_lines py [] = Inr []"
| "finding_lines py (finding # rest) =
     (case dict_get finding ''finding'' (JStr []) of
        Inl e \<Rightarrow> Inl e
      | Inr f_finding \<Rightarrow>
     (case dict_get finding ''confidence'' (JStr ''N/A'') of
        Inl e \<Rightarrow> Inl e
      | Inr f_confidence \<Rightarrow>
     (case dict_get finding ''interpretation'' (JStr []) of
        Inl e \<Rightarrow> Inl e
      | Inr f_interpretation \<Rightarrow>
     (case finding_lines py rest of
        Inl e \<Rightarrow> Inl e
      | Inr rest_lines \<Rightarrow>
          Inr ([''<li><strong>'' @ py_str_of py f_finding @ ''</strong> ('' @ py_str_of py f_confidence @ '')'',
                ''<p><em>Interpretasi:</em> '' @ py_str_of py f_interpretation @ ''</p></li>''] @ rest_lines)))))"

definition findings_section :: "py_builtins \<Rightarrow> json \<Rightarrow> py_error + string list" where
  "findings_section py primary_findings =
     (if py_truthy primary_findings
      then (case py_iter primary_findings of
              Inl e \<Rightarrow> Inl e
            | Inr findings \<Rightarrow>
                (case finding_lines py findings of
                   Inl e \<Rightarrow> Inl e
                 | Inr ls \<Rightarrow>
                     Inr ([''<div class='findings-section'>'',
                           ''<h3>Temuan Utama:</h3>'',
                           ''<ul>''] @ ls @
                          [''</ul>'',
                           ''</div>''])))
      else Inr [])"

text \<open>The six phases: name, icon, description.\<close>

definition dfrws_phases :: "(string \<times> string \<times> string) list" where
  "dfrws_phases =
     [(''Identifikasi'', [CHR 0xEF, CHR 0xA3, CHR 0xBF, CHR 0xC3, CHR 0xBC, CHR 0xC3, CHR 0xAE, CHR 0xC3, CHR 0xA7], ''Mengidentifikasi bukti potensial (video) dan metadata-nya.''),
      (''Preservasi'', [CHR 0xEF, CHR 0xA3, CHR 0xBF, CHR 0xC3, CHR 0xBC, CHR 0xC3, CHR 0xB5, CHR 0xC2, CHR 0xB0, CHR 0xC3, CHR 0x94, CHR 0xE2, CHR 0x88, CHR 0x8F, CHR 0xC3, CHR 0xA8], ''Menjaga integritas bukti dengan hash SHA-256 dan penyimpanan frame asli.''),
      (''Pengumpulan'', [CHR 0xEF, CHR 0xA3, CHR 0xBF, CHR 0xC3, CHR 0xBC, CHR 0xC3, CHR 0xAC, CHR 0xE2, CHR 0x80, CHR 0xA2], ''Ekstraksi frame, normalisasi warna, dan penghitungan pHash.''),
      (''Pemeriksaan'', [CHR 0xEF, CHR 0xA3, CHR 0xBF, CHR 0xC3, CHR 0xBC, CHR 0xC3, CHR 0xAE, CHR 0xC2, CHR 0xA8], ''Analisis temporal, K-Means, Error Level Analysis, dan SIFT+RANSAC.''),
      (''Analisis'', [CHR 0xEF, CHR 0xA3, CHR 0xBF, CHR 0xC3, CHR 0xBC, CHR 0xC3, CHR 0xAC, CHR 0xC3, CHR 0xA0], ''Localization Tampering dan Forensic Evidence Reliability Matrix (FERM).''),
      (''Pelaporan'', [CHR 0xEF, CHR 0xA3, CHR 0xBF, CHR 0xC3, CHR 0xBC, CHR 0xC3, CHR 0xAC, CHR 0xC3, CHR 0x91], ''Dokumentasi sistematis temuan dengan visualisasi dan penjelasan.'')]"

definition method_card :: "string \<times> string \<times> string \<Rightarrow> string list" where
  "method_card phase =
     (case phase of (name, icon, desc) \<Rightarrow>
        [''<div class='method-card'>'',
         ''<h3>'' @ icon @ '' '' @ name @ ''</h3>'',
         ''<p>'' @ desc @ ''</p>'',
         ''</div>''])"

definition methodology_section :: "string list" where
  "methodology_section =
     [section_header ''Metodologi DFRWS'' 2,
      ''<p>Analisis forensik video ini mengikuti kerangka kerja DFRWS yang terstruktur dalam enam tahap berikut:</p>'',
      ''<div class='two-column'>''] @
     concat (map method_card dfrws_phases) @
     [''</div>'']"

text \<open>The visualisations: artifact key, title, description.\<close>

definition timeline_visuals :: "(string \<times> string \<times> string) list" where
  "timeline_visuals =
     [(''kmeans_temporal'', ''Klasterisasi Warna K-Means Sepanjang Waktu'', ''Menunjukkan perpindahan antar klaster warna yang dapat mengindikasikan perubahan adegan atau diskontinuitas.''),
      (''ssim_temporal'', ''Analisis Structural Similarity Index (SSIM)'', ''Menampilkan perubahan kemiripan struktural antar frame berurutan. Penurunan tajam mengindikasikan diskontinuitas.''),
      (''optical_flow_temporal'', ''Analisis Aliran Optik (Optical Flow)'', ''Mengukur pergerakan piksel antar frame. Lonjakan besar menandakan gerakan abnormal yang mungkin akibat manipulasi.'')]"

definition enhanced_maps :: "(string \<times> string \<times> string) list" where
  "enhanced_maps =
     [(''enhanced_localization_map'', ''Peta Lokalisasi Tampering'', ''Visualisasi komprehensif yang menunjukkan lokasi, durasi, dan tingkat kepercayaan peristiwa anomali dalam video.''),
      (''anomaly_infographic'', ''Infografis Penjelasan Anomali'', ''Penjelasan visual tentang berbagai jenis anomali, metode deteksinya, dan implikasi forensiknya.'')]"

definition ferm_visuals :: "(string \<times> string \<times> string) list" where
  "ferm_visuals =
     [(''ferm_evidence_strength'', ''Kekuatan Bukti FERM'', ''Menunjukkan efektivitas relatif dari berbagai metode deteksi untuk setiap jenis anomali.''),
      (''ferm_reliability'', ''Faktor-faktor Reliabilitas FERM'', ''Menampilkan faktor-faktor yang berkontribusi positif atau negatif terhadap penilaian keandalan bukti.'')]"

text \<open>The body of the loops over \<open>timeline_visuals\<close> and \<open>enhanced_maps\<close>.\<close>

definition visual_block :: "entry \<Rightarrow> string \<times> string \<times> string \<Rightarrow> string list" where
  "visual_block entry visual =
     (case visual of (key, title, desc) \<Rightarrow>
        (case get_artifact_relative_path entry key of
           Some img_path \<Rightarrow>
             [''<h3>'' @ title @ ''</h3>'',
              ''<p>'' @ desc @ ''</p>'',
              ''<img src='' @ [CHR 0x27] @ img_path @ [CHR 0x27] @ '' alt='' @ [CHR 0x27] @ title @ [CHR 0x27] @ ''>'',
              ''<hr>'']
         | None \<Rightarrow> []))"

text \<open>The body of the loop over \<open>ferm_visuals\<close>.\<close>

definition ferm_visual_block :: "entry \<Rightarrow> string \<times> string \<times> string \<Rightarrow> string list" where
  "ferm_visual_block entry visual =
     (case visual of (key, title, desc) \<Rightarrow>
        (case get_artifact_relative_path entry key of
           Some img_path \<Rightarrow>
             [''<h4>'' @ title @ ''</h4>'',
              ''<p>'' @ desc @ ''</p>'',
              ''<img src='' @ [CHR 0x27] @ img_path @ [CHR 0x27] @ '' alt='' @ [CHR 0x27] @ title @ [CHR 0x27] @ ''>'']
         | None \<Rightarrow> []))"

definition visuals_section :: "entry \<Rightarrow> string list" where
  "visuals_section entry =
     [section_header ''Visualisasi Analisis Utama'' 2,
      ''<p>Berikut adalah visualisasi-visualisasi kunci dari hasil analisis forensik:</p>''] @
     concat (map (visual_block entry) timeline_visuals) @
     concat (map (visual_block entry) enhanced_maps) @
     [''<h3>Analisis Matriks Keandalan Bukti Forensik (FERM)</h3>'',
      ''<p>FERM adalah pendekatan multi-dimensi untuk menilai keandalan bukti forensik, mempertimbangkan faktor kekuatan bukti, karakteristik anomali, dan analisis kausalitas.</p>''] @
     concat (map (ferm_visual_block entry) ferm_visuals)"

text \<open>The first of the three anomaly frames that was stored, the same for every event.\<close>

fun first_artifact_path :: "entry \<Rightarrow> string list \<Rightarrow> string option" where
  "first_artifact_path entry [] = None"
| "first_artifact_path entry (artifact_key # others) =
     (case get_artifact_relative_path entry artifact_key of
        Some img_path \<Rightarrow> Some img_path
      | None \<Rightarrow> first_artifact_path entry others)"

definition evidence_image :: "entry \<Rightarrow> string list" where
  "evidence_image entry =
     (case first_artifact_path entry
             [''anomaly_frame_0'', ''anomaly_frame_1'', ''anomaly_frame_2''] of
        None \<Rightarrow> []
      | Some img_path \<Rightarrow>
          [''<p><strong>Bukti Visual:</strong></p>'',
           ''<img src='' @ [CHR 0x27] @ img_path @ [CHR 0x27] @ '' alt='Bukti visual anomali'>''])"

definition metrics_lines :: "py_builtins \<Rightarrow> localization \<Rightarrow> string list" where
  "metrics_lines py loc =
     (case loc_metrics loc of
        None \<Rightarrow> []
      | Some ms \<Rightarrow>
          if ms = [] then []
          else [''<p><strong>Metrik Teknis:</strong></p>'',
                ''<div>''] @
               map (\<lambda>(key, v). ''<span class='metric'>'' @ py_title py (str_replace ''_'' '' '' key) @ '': '' @ py_str_of py v @ ''</span>'') ms @
               [''</div>''])"

definition anomaly_block :: "py_builtins \<Rightarrow> entry \<Rightarrow> nat \<Rightarrow> localization \<Rightarrow> string list" where
  "anomaly_block py entry i loc =
     (let anomaly_desc = get_anomaly_description (event_type loc)
      in [''<div class='anomaly-type'>'',
          ''<h3>'' @ ad_icon anomaly_desc @ '' Peristiwa #'' @ str_nat (i + 1) @ '': '' @ ad_title anomaly_desc @ ''</h3>'',
          ''<p><strong>Lokasi:</strong> '' @ py_format_2f py (case loc_start_ts loc of None \<Rightarrow> PyInt 0 | Some x \<Rightarrow> x) @ ''s - '' @ py_format_2f py (case loc_end_ts loc of None \<Rightarrow> PyInt 0 | Some x \<Rightarrow> x) @ ''s (Durasi: '' @ py_format_2f py (case loc_duration loc of None \<Rightarrow> PyInt 0 | Some x \<Rightarrow> x) @ ''s)</p>'',
          ''<p><strong>Tingkat Kepercayaan:</strong> '' @ py_str_of py (case loc_confidence loc of None \<Rightarrow> JStr ''N/A'' | Some c \<Rightarrow> c) @ ''</p>''] @
         [''<div class='explanation-box'>'',
          ''<p><strong>Penjelasan:</strong> '' @ ad_simple anomaly_desc @ ''</p>'',
          ''<p><strong>Implikasi Forensik:</strong> '' @ ad_implication anomaly_desc @ ''</p>'',
          ''</div>''] @
         evidence_image entry @
         metrics_lines py loc @
         [''</div>''])"

text \<open>The loop over \<^verbatim>\<open>enumerate(localizations)\<close>, from index \<open>i\<close> on.\<close>

fun anomaly_blocks :: "py_builtins \<Rightarrow> entry \<Rightarrow> nat \<Rightarrow> localization list \<Rightarrow> string list" where
  "anomaly_blocks py entry i [] = []"
| "anomaly_blocks py entry i (loc # rest) =
     anomaly_block py entry i loc @ anomaly_blocks py entry (Suc i) rest"

definition anomaly_section :: "py_builtins \<Rightarrow> entry \<Rightarrow> string list" where
  "anomaly_section py entry =
     (if e_localizations entry \<noteq> []
      then [section_header ''Detail Peristiwa Anomali'' 2,
            ''<p>Analisis menemukan <strong>'' @ str_nat (length (e_localizations entry)) @ '' peristiwa anomali</strong> dalam video ini:</p>''] @
           anomaly_blocks py entry 0 (e_localizations entry)
      else [section_header ''Tidak Ditemukan Anomali Signifikan'' 2,
            ''<p>Analisis forensik tidak menemukan bukti anomali yang signifikan dalam video ini.</p>''])"

definition conclusion_section :: "py_builtins \<Rightarrow> entry \<Rightarrow> json \<Rightarrow> string list" where
  \<open>conclusion_section py entry reliability =
     [section_header ''Kesimpulan'' 2,
      (if length (e_localizations entry) > 0
       then ''<p>Berdasarkan analisis forensik 5 tahap yang telah dilakukan, video "'' @ e_video_name entry @ ''" memiliki penilaian reliabilitas "'' @ py_str_of py reliability @ ''". Sistem telah mendeteksi '' @ str_nat (length (e_localizations entry)) @ '' peristiwa anomali yang memerlukan perhatian.</p>''
       else ''<p>Berdasarkan analisis forensik 5 tahap yang telah dilakukan, video "'' @ e_video_name entry @ ''" memiliki penilaian reliabilitas "'' @ py_str_of py reliability @ ''". Sistem tidak mendeteksi adanya peristiwa anomali yang signifikan dalam video ini.</p>''),
      ''<p>PENTING: Hasil analisis ini adalah produk dari sistem otomatis, dan meskipun menggunakan metodologi DFRWS yang diakui secara profesional, penting untuk dipahami bahwa penilaian akhir dan interpretasi temuan memerlukan validasi dan analisis lebih lanjut oleh ahli forensik video berkualifikasi. Sistem hanya menganalisis temuan yang terdeteksi melalui algoritma; interpretasi kontekstual dan legal dari temuan tersebut berada di luar kemampuan sistem dan memerlukan penilaian manusia.</p>'']\<close>

definition footer_lines :: "py_builtins \<Rightarrow> entry \<Rightarrow> string list" where
  "footer_lines py entry =
     [''<div class='footer'>'',
      ''    <p>Laporan ini dihasilkan oleh Sistem VIFA-Pro pada '' @ format_timestamp py (e_timestamp entry) @ ''</p>'',
      ''    <p>'' @ [CHR 0xC2, CHR 0xAC, CHR 0xC2, CHR 0xA9] @ '' VIFA-Pro - Sistem Deteksi Forensik Keaslian Video</p>'',
      ''</div>'',
      ''</body>'',
      ''</html>'']"

text \<open>
  \<^verbatim>\<open>_generate_html_report\<close>. Every key that the source reads with \<^verbatim>\<open>entry.get\<close> is present
  in a stored record, so no default of \<^verbatim>\<open>entry.get\<close> applies: a record saved from a
  result without evidence matrix holds \<^verbatim>\<open>null\<close> under \<^verbatim>\<open>forensic_evidence_matrix\<close>.
\<close>

definition generate_html_report :: "py_builtins \<Rightarrow> entry \<Rightarrow> py_error + string" where
  "generate_html_report py entry =
     (let ferm = e_forensic_evidence_matrix entry
      in case dict_get ferm ''conclusion'' (JObj []) of
           Inl e \<Rightarrow> Inl e
         | Inr conclusion \<Rightarrow>
        (case dict_get conclusion ''reliability_assessment'' (JStr ''N/A'') of
           Inl e \<Rightarrow> Inl e
         | Inr reliability \<Rightarrow>
        (case reliability_colour reliability of
           Inl e \<Rightarrow> Inl e
         | Inr reliability_color \<Rightarrow>
        (case dict_get conclusion ''primary_findings'' (JArr []) of
           Inl e \<Rightarrow> Inl e
         | Inr primary_findings \<Rightarrow>
        (case findings_section py primary_findings of
           Inl e \<Rightarrow> Inl e
         | Inr findings \<Rightarrow>
             Inr (join_lines
                    (report_head py entry reliability reliability_color @
                     disclaimer_lines @
                     findings @
                     methodology_section @
                     visuals_section entry @
                     anomaly_section py entry @
                     conclusion_section py entry reliability @
                     footer_lines py entry)))))))"

subsection \<open>The export packager\<close>

text \<open>
  An entry of the archive: the record as \<^verbatim>\<open>json.dumps(entry, indent=4)\<close> writes it, the
  text of the report, or the bytes of a file.
\<close>

datatype payload = JsonDump entry | HtmlText string | FileBytes fdata

type_synonym archive = "(string \<times> payload) list"

text \<open>
  The files that \<^verbatim>\<open>artifact_folder.glob('**/*')\<close> yields, at any depth, each under
  \<^verbatim>\<open>artifacts/\<close> and its last component. A path that is no directory yields nothing.
\<close>

definition artifact_entries :: "filesystem \<Rightarrow> path \<Rightarrow> archive" where
  "artifact_entries fs artifact_folder =
     (if is_dir fs artifact_folder
      then concat (map (\<lambda>(p, node).
                          case node of
                            FileNode bytes \<Rightarrow>
                              if lies_under artifact_folder p
                              then [(''artifacts/'' @ basename p, FileBytes bytes)] else []
                          | DirNode \<Rightarrow> [])
                       fs)
      else [])"

definition export_analysis ::
  "manager \<Rightarrow> py_builtins \<Rightarrow> world \<Rightarrow> string \<Rightarrow> py_error + (archive option \<times> world)"
where
  "export_analysis self py w analysis_id =
     (case get_analysis self w analysis_id of
        Inl e \<Rightarrow> Inl e
      | Inr (None, w') \<Rightarrow> Inr (None, w')
      | Inr (Some entry, w') \<Rightarrow>
          (case generate_html_report py entry of
             Inl e \<Rightarrow> Inl e
           | Inr html_report \<Rightarrow>
               (let artifact_folder = e_artifacts_folder entry
                in Inr (Some ([(''analysis_report.json'', JsonDump entry),
                               (''analysis_report.html'', HtmlText html_report)] @
                              (if path_exists (files w') artifact_folder
                               then artifact_entries (files w') artifact_folder
                               else [])),
                        w'))))"

subsection \<open>The specification's wording, for comparison\<close>

text \<open>Removing a prefix, as the specification describes the event tag's treatment.\<close>

definition strip_prefix :: "string \<Rightarrow> string \<Rightarrow> string" where
  "strip_prefix pre s = (if prefix pre s then drop (length pre) s else s)"

definition spec_kind_count :: "string \<Rightarrow> localization list \<Rightarrow> nat" where
  "spec_kind_count kind locs =
     length (filter (\<lambda>loc. strip_prefix ''anomaly_''
                            (case loc_event loc of None \<Rightarrow> [] | Some ev \<Rightarrow> ev) = kind) locs)"

text \<open>
  The anomaly-frame rule in the specification's words: the first three events that carry
  a resolvable image path, keyed 0, 1, 2 in the order met. Each key comes with the image
  it stands for.
\<close>

definition spec_anomaly_frames :: "filesystem \<Rightarrow> localization list \<Rightarrow> (string \<times> path) list" where
  "spec_anomaly_frames fs locs =
     map (\<lambda>(i, loc). (frame_key i, the (loc_image loc)))
       (enumerate 0 (take 3 (filter (resolvable fs) locs)))"

subsection \<open>What is observed of a state\<close>

text \<open>The number of events whose tag, with every \<open>anomaly_\<close> dropped, is the kind.\<close>

definition kind_count :: "string \<Rightarrow> localization list \<Rightarrow> nat" where
  "kind_count kind locs = length (filter (\<lambda>loc. event_type loc = kind) locs)"

text \<open>The collection that the history file stands for: none when it cannot be read.\<close>

definition stored_records :: "manager \<Rightarrow> world \<Rightarrow> entry list" where
  "stored_records self w =
     (case map_of (files w) (history_file self) of
        Some (FileNode (Records es)) \<Rightarrow> es
      | _ \<Rightarrow> [])"

text \<open>The record that a call of \<open>save_analysis\<close> left at the end of the collection.\<close>

definition saved_entry :: "manager \<Rightarrow> py_error + (string \<times> world) \<Rightarrow> entry option" where
  "saved_entry self r =
     (case r of
        Inl e \<Rightarrow> None
      | Inr (aid, w') \<Rightarrow>
          (case stored_records self w' of [] \<Rightarrow> None | e # es \<Rightarrow> Some (last (e # es))))"

text \<open>
  The source file that an entry \<open>key \<mapsto> stored\<close> of the output of \<open>save_artifacts\<close> stands
  for: a plot of that name, the image of one of the first three events, or a report.
\<close>

definition entry_source :: "analysis_result \<Rightarrow> path \<Rightarrow> string \<Rightarrow> path \<Rightarrow> path \<Rightarrow> bool" where
  "entry_source result folder key stored src =
     ((key, Some src) \<in> set (plots result) \<and> stored = path_join folder (basename src)
      \<or> (\<exists>i < min 3 (length (localizations result)).
            key = frame_key i \<and> loc_image (localizations result ! i) = Some src
            \<and> stored = frame_target folder i)
      \<or> key = ''pdf_report'' \<and> pdf_report_path result = Some src
         \<and> stored = path_join folder (basename src)
      \<or> key = ''html_report'' \<and> getattr_path (html_report_path result) = Some src
         \<and> stored = path_join folder (basename src)
      \<or> key = ''json_report'' \<and> getattr_path (json_report_path result) = Some src
         \<and> stored = path_join folder (basename src))"

text \<open>The name of a copied anomaly frame.\<close>

definition frame_name :: "string \<Rightarrow> bool" where
  "frame_name name = prefix ''sample_anomaly_frame_'' name"

text \<open>The plot and report files of a result, with the paths they are copied from.\<close>

definition other_sources :: "analysis_result \<Rightarrow> path list" where
  "other_sources result =
     List.map_filter snd (plots result) @
     List.map_filter id
       [pdf_report_path result, getattr_path (html_report_path result),
        getattr_path (json_report_path result)]"

text \<open>A directory that holds nothing.\<close>

definition empty_dir :: "filesystem \<Rightarrow> path \<Rightarrow> bool" where
  "empty_dir fs d = (is_dir fs d \<and> \<not> list_ex (\<lambda>(q, n). lies_under d q) fs)"

text \<open>What lies under a directory.\<close>

definition entries_under :: "filesystem \<Rightarrow> path \<Rightarrow> path list" where
  "entries_under fs d = map fst (filter (\<lambda>(q, n). lies_under d q) fs)"

text \<open>A path is a directory or lies under it.\<close>

definition at_or_under :: "path \<Rightarrow> path \<Rightarrow> bool" where
  "at_or_under d p = (p = d \<or> lies_under d p)"

subsection \<open>Example inputs\<close>

definition example_manager :: manager where
  "example_manager =
     \<lparr>history_file = ''analysis_history.json'', history_folder = ''analysis_artifacts''\<rparr>"

text \<open>A manager whose history file lies in its artifact folder.\<close>

definition nested_manager :: manager where
  "nested_manager =
     \<lparr>history_file = ''analysis_artifacts/history.json'',
      history_folder = ''analysis_artifacts''\<rparr>"

definition event_only :: "string \<Rightarrow> localization" where
  "event_only ev =
     \<lparr>loc_event = Some ev, loc_start_ts = None, loc_end_ts = None, loc_duration = None,
      loc_confidence = None, loc_metrics = None, loc_image = None\<rparr>"

text \<open>The localization of the specification's example.\<close>

definition example_localization :: localization where
  "example_localization =
     \<lparr>loc_event = Some ''anomaly_duplication'', loc_start_ts = Some (PyFloat 1),
      loc_end_ts = Some (PyFloat (5 / 2)), loc_duration = Some (PyFloat (3 / 2)),
      loc_confidence = Some (JStr ''High''), loc_metrics = None, loc_image = None\<rparr>"

text \<open>A result without plots and reports, and without the optional sections.\<close>

definition example_result :: "localization list \<Rightarrow> analysis_result" where
  "example_result locs =
     \<lparr>preservation_hash = ''9f86d081884c7d659a2feaa0c55ad015a3bf4f1b2b0b822cd15d6c15b0f00a08'',
      summary = JObj [], metadata = JObj [],
      forensic_evidence_matrix = Missing, localization_details = Missing,
      pipeline_assessment = Missing,
      localizations = locs, plots = [], pdf_report_path = None,
      html_report_path = Missing, json_report_path = Missing\<rparr>"

text \<open>An empty working directory, before any manager was made.\<close>

definition empty_world :: world where
  "empty_world =
     \<lparr>files = [], blocked = [],
      settings = [], uuid_stream = (\<lambda>n. ''run-'' @ str_nat n), uuid_count = 0,
      clock_stream = (\<lambda>n. ''2025-06-01T10:00:0'' @ str_nat n), clock_count = 0\<rparr>"

text \<open>The world right after the constructor of \<open>example_manager\<close> ran there.\<close>

definition example_world :: world where
  "example_world =
     empty_world\<lparr>files := [(''analysis_artifacts'', DirNode),
                             (''analysis_history.json'', FileNode (Records []))]\<rparr>"

text \<open>The same world with a history file that holds half a JSON document.\<close>

definition corrupt_world :: world where
  "corrupt_world =
     empty_world\<lparr>files := [(''analysis_artifacts'', DirNode),
                             (''analysis_history.json'', FileNode (NotJson ''[{''))]\<rparr>"

text \<open>The same world with a history file of bytes that are no text.\<close>

definition garbled_world :: world where
  "garbled_world =
     empty_world\<lparr>files := [(''analysis_artifacts'', DirNode),
                             (''analysis_history.json'',
                              FileNode (NotText [CHR 0xFF, CHR 0xFE, CHR 0x00]))]\<rparr>"

text \<open>A stored record with one copied plot, and a world that holds it.\<close>

definition example_entry :: entry where
  "example_entry =
     \<lparr>e_id = ''run-0'', e_timestamp = ''2025-06-01T10:00:00'', e_video_name = ''clip.mp4'',
      e_artifacts_folder = ''analysis_artifacts/run-0'',
      e_preservation_hash = ''9f86d081884c7d659a2feaa0c55ad015a3bf4f1b2b0b822cd15d6c15b0f00a08'',
      e_summary = JObj [], e_metadata = JObj [],
      e_forensic_evidence_matrix =
        JObj [(''conclusion'', JObj [(''reliability_assessment'', JStr ''Tinggi'')])],
      e_localization_details = JNull, e_pipeline_assessment = JNull,
      e_localizations = [example_localization], e_localizations_count = 1,
      e_anomaly_types = [(''duplication'', 1), (''insertion'', 0), (''discontinuity'', 0)],
      e_saved_artifacts = [(''kmeans_temporal'', ''analysis_artifacts/run-0/kmeans.png'')],
      e_additional_info = [],
      e_report_paths = \<lparr>rp_pdf = None, rp_html = None, rp_json = None\<rparr>\<rparr>"

definition stored_world :: world where
  "stored_world =
     empty_world
       \<lparr>files := [(''analysis_artifacts'', DirNode),
                  (''analysis_history.json'', FileNode (Records [example_entry])),
                  (''analysis_artifacts/run-0'', DirNode),
                  (''analysis_artifacts/run-0/kmeans.png'', FileNode (NotText ''PNG''))],
        uuid_count := 1, clock_count := 1\<rparr>"

text \<open>The same, with a plot file that the system refuses to remove.\<close>

definition locked_world :: world where
  "locked_world = stored_world\<lparr>blocked := [''analysis_artifacts/run-0/kmeans.png'']\<rparr>"

text \<open>The world of \<open>nested_manager\<close>, holding the same record.\<close>

definition nested_world :: world where
  "nested_world =
     empty_world
       \<lparr>files := [(''analysis_artifacts'', DirNode),
                  (''analysis_artifacts/history.json'', FileNode (Records [example_entry])),
                  (''analysis_artifacts/run-0'', DirNode),
                  (''analysis_artifacts/run-0/kmeans.png'', FileNode (NotText ''PNG''))],
        uuid_count := 1, clock_count := 1\<rparr>"

text \<open>Four events, the first without an image, the others with images on disk.\<close>

definition with_image :: "path \<Rightarrow> localization" where
  "with_image p = (event_only ''anomaly_insertion'')\<lparr>loc_image := Some p\<rparr>"

definition frames_locs :: "localization list" where
  "frames_locs =
     [event_only ''anomaly_discontinuity'', with_image ''/tmp/a.jpg'',
      with_image ''/tmp/b.jpg'', with_image ''/tmp/c.jpg'']"

definition frames_fs :: filesystem where
  "frames_fs =
     [(''analysis_artifacts'', DirNode), (''analysis_artifacts/run-0'', DirNode),
      (''/tmp'', DirNode), (''/tmp/a.jpg'', FileNode (NotText ''A'')), (''/tmp/b.jpg'', FileNode (NotText ''B'')),
      (''/tmp/c.jpg'', FileNode (NotText ''C''))]"

section \<open>Properties\<close>

lemma str_nat_small [simp]:
  "str_nat 0 = ''0''" "str_nat (Suc 0) = ''1''" "str_nat (Suc (Suc 0)) = ''2''"
  "str_nat 2 = ''2''" "str_nat 3 = ''3''"
  by (simp_all add: str_nat.simps [of 0] str_nat.simps [of "Suc 0"] str_nat.simps [of 2]
        str_nat.simps [of "Suc (Suc 0)"] str_nat.simps [of 3] digit_char_def)

subsection \<open>Reading and writing the history file\<close>

lemma open_write_map:
  "open_write fs p d = Inr fs' \<Longrightarrow> map_of fs' = (map_of fs)(p \<mapsto> FileNode d)"
  by (auto simp: open_write_def AList.update_conv' split: option.splits fnode.splits)

lemma open_write_existing:
  "map_of fs p = Some (FileNode old) \<Longrightarrow> open_write fs p d = Inr (AList.update p (FileNode d) fs)"
  by (simp add: open_write_def)

lemma stored_records_Records:
  "map_of (files w) (history_file self) = Some (FileNode (Records es)) \<Longrightarrow> stored_records self w = es"
  by (simp add: stored_records_def)

lemma load_history_Records:
  "map_of (files w) (history_file self) = Some (FileNode (Records es))
   \<Longrightarrow> load_history self w = Inr (es, w)"
  by (simp add: load_history_def)

lemma load_history_Inr:
  assumes "load_history self w = Inr (h, w1)"
  shows "h = stored_records self w"
    and "map_of (files w1) (history_file self) = Some (FileNode (Records h))"
    and "\<And>p. p \<noteq> history_file self \<Longrightarrow> map_of (files w1) p = map_of (files w) p"
    and "w1 = w\<lparr>files := files w1\<rparr>"
  using assms
  by (auto simp: load_history_def reset_history_def stored_records_def
           dest!: open_write_map
           split: option.splits fnode.splits fdata.splits sum.splits)

lemma load_history_again:
  "load_history self w = Inr (h, w1) \<Longrightarrow> load_history self w1 = Inr (h, w1)"
  by (auto dest: load_history_Inr(2) intro: load_history_Records)

lemma get_analysis_Records:
  "map_of (files w) (history_file self) = Some (FileNode (Records es))
   \<Longrightarrow> get_analysis self w aid = Inr (find (\<lambda>entry. e_id entry = aid) es, w)"
  by (simp add: get_analysis_def load_history_Records)

lemma find_stored_Records:
  "find P (stored_records self w) = Some e
   \<Longrightarrow> map_of (files w) (history_file self) = Some (FileNode (Records (stored_records self w)))"
  by (auto simp: stored_records_def split: option.splits fnode.splits fdata.splits)

lemma save_analysis_stages:
  assumes "save_analysis self w result video_name additional_info = Inr (aid, w')"
  obtains fs1 sv fs2 h w2 where
    "aid = uuid_stream w (uuid_count w)"
    "mkdir (files w) (path_join (history_folder self) aid) = Inr fs1"
    "save_artifacts fs1 result (path_join (history_folder self) aid) = Inr (sv, fs2)"
    "load_history self (w\<lparr>files := fs2, uuid_count := Suc (uuid_count w),
                          clock_count := Suc (clock_count w)\<rparr>) = Inr (h, w2)"
    "map_of (files w') (history_file self)
       = Some (FileNode (Records (h @ [history_entry result video_name additional_info aid
                (clock_stream w (clock_count w)) (path_join (history_folder self) aid) sv])))"
  using assms
  by (auto simp: save_analysis_def Let_def dest!: open_write_map
           split: sum.splits prod.splits)

lemma history_entry_fields [simp]:
  "e_id (history_entry result video_name info aid now folder sv) = aid"
  "e_video_name (history_entry result video_name info aid now folder sv) = video_name"
  "e_preservation_hash (history_entry result video_name info aid now folder sv)
     = preservation_hash result"
  "e_localizations (history_entry result video_name info aid now folder sv)
     = localizations result"
  "e_localizations_count (history_entry result video_name info aid now folder sv)
     = length (localizations result)"
  "e_anomaly_types (history_entry result video_name info aid now folder sv)
     = count_anomaly_types result"
  "e_forensic_evidence_matrix (history_entry result video_name info aid now folder sv)
     = attr_or_null (forensic_evidence_matrix result)"
  "e_artifacts_folder (history_entry result video_name info aid now folder sv) = folder"
  "e_saved_artifacts (history_entry result video_name info aid now folder sv) = sv"
  by (simp_all add: history_entry_def)

subsection \<open>Where the artifact store writes\<close>

lemma lies_under_join: "name \<noteq> [] \<Longrightarrow> lies_under d (path_join d name)"
  by (simp add: lies_under_def path_join_def)

lemma lies_under_longer: "lies_under d p \<Longrightarrow> length d < length p"
  by (auto simp: lies_under_def prefix_def)

lemma lies_under_irrefl: "\<not> lies_under d d"
  by (auto dest: lies_under_longer)

lemma lies_under_trans: "lies_under a b \<Longrightarrow> lies_under b c \<Longrightarrow> lies_under a c"
proof -
  assume ab: "lies_under a b" and bc: "lies_under b c"
  from ab obtain x where b: "b = a @ ''/'' @ x"
    by (auto simp: lies_under_def prefix_def)
  from bc obtain y where c: "c = b @ ''/'' @ y"
    by (auto simp: lies_under_def prefix_def)
  from b c have "c = (a @ ''/'') @ (x @ ''/'' @ y)" by simp
  then show ?thesis by (simp add: lies_under_def)
qed

lemma at_or_under_join: "at_or_under d (path_join d name)"
  by (simp add: at_or_under_def path_join_def lies_under_def)

lemma at_or_under_trans: "at_or_under a b \<Longrightarrow> at_or_under b c \<Longrightarrow> at_or_under a c"
  by (auto simp: at_or_under_def dest: lies_under_trans)

lemma at_or_under_refl [simp]: "at_or_under d d"
  by (simp add: at_or_under_def)

lemma mkdir_map:
  "mkdir fs p = Inr fs' \<Longrightarrow> map_of fs' = (map_of fs)(p \<mapsto> DirNode)"
  by (auto simp: mkdir_def AList.update_conv' split: option.splits fnode.splits)

lemma copy_map:
  assumes "copy fs src dst = Inr fs'"
  shows "\<exists>q d. map_of fs src = Some (FileNode d) \<and> map_of fs' = (map_of fs)(q \<mapsto> FileNode d)
               \<and> q = (if is_dir fs dst then path_join dst (basename src) else dst)
               \<and> q \<noteq> src \<and> \<not> is_dir fs q"
  using assms
  by (auto simp: copy_def Let_def path_exists_def is_dir_def open_write_def
        AList.update_conv' split: option.splits fnode.splits if_splits)

lemma copy_outside:
  "copy fs src dst = Inr fs' \<Longrightarrow> \<not> at_or_under dst p \<Longrightarrow> map_of fs' p = map_of fs p"
  by (drule copy_map) (auto simp: at_or_under_join split: if_splits)

lemma copy_keeps: "copy fs src dst = Inr fs' \<Longrightarrow> path_exists fs p \<Longrightarrow> path_exists fs' p"
  by (drule copy_map) (auto simp: path_exists_def)

lemma copy_target_exists: "copy fs src dst = Inr fs' \<Longrightarrow> path_exists fs' dst"
  by (drule copy_map) (auto simp: path_exists_def is_dir_def split: if_splits)

lemma copy_keeps_dirs: "copy fs src dst = Inr fs' \<Longrightarrow> is_dir fs' p \<longleftrightarrow> is_dir fs p"
  by (drule copy_map) (auto simp: is_dir_def split: if_splits)

subsection \<open>Copying anomaly frames\<close>

lemma digit_char_inj: "a < 10 \<Longrightarrow> b < 10 \<Longrightarrow> digit_char a = digit_char b \<Longrightarrow> a = b"
proof -
  assume a: "a < 10" and b: "b < 10" and e: "digit_char a = digit_char b"
  have d: "distinct ''0123456789''" by simp
  have "length ''0123456789'' = 10" by simp
  with a b e d show ?thesis
    unfolding digit_char_def by (metis nth_eq_iff_index_eq)
qed

lemma str_nat_length: "length (str_nat n) = 1 \<longleftrightarrow> n < 10"
proof (cases "n < 10")
  case True
  then show ?thesis by (simp add: str_nat.simps [of n])
next
  case False
  moreover have "str_nat m \<noteq> []" for m
    by (simp add: str_nat.simps [of m])
  ultimately show ?thesis
    by (simp add: str_nat.simps [of n])
qed

lemma str_nat_inj: "str_nat n = str_nat m \<Longrightarrow> n = m"
proof (induction n arbitrary: m rule: less_induct)
  case (less n)
  show ?case
  proof (cases "n < 10")
    case True
    then have "length (str_nat m) = 1" using less.prems str_nat_length [of n] by simp
    then have "m < 10" using str_nat_length [of m] by simp
    with True less.prems show ?thesis
      by (simp add: str_nat.simps [of n] str_nat.simps [of m] digit_char_inj)
  next
    case False
    then have "length (str_nat m) \<noteq> 1" using less.prems str_nat_length [of n] by simp
    then have m: "\<not> m < 10" using str_nat_length [of m] by simp
    from False m less.prems have
      "str_nat (n div 10) @ [digit_char (n mod 10)] = str_nat (m div 10) @ [digit_char (m mod 10)]"
      by (simp add: str_nat.simps [of n] str_nat.simps [of m])
    then have "str_nat (n div 10) = str_nat (m div 10)" "digit_char (n mod 10) = digit_char (m mod 10)"
      by simp_all
    moreover have "n div 10 < n" using False by simp
    ultimately have "n div 10 = m div 10" "n mod 10 = m mod 10"
      using less.IH digit_char_inj by simp_all
    then show ?thesis by (metis div_mult_mod_eq)
  qed
qed

lemma frame_key_inj [simp]: "frame_key i = frame_key j \<longleftrightarrow> i = j"
  by (auto simp: frame_key_def dest: str_nat_inj)

lemma save_frames_keeps:
  "save_frames i fs folder locs sv = Inr (sv', fs') \<Longrightarrow> path_exists fs p \<Longrightarrow> path_exists fs' p"
proof (induction locs arbitrary: i fs sv)
  case Nil
  then show ?case by simp
next
  case (Cons loc locs)
  then show ?case
    by (auto split: if_splits sum.splits dest: copy_keeps)
qed

lemma resolvable_copy:
  "copy fs src dst = Inr fs' \<Longrightarrow> resolvable fs loc \<Longrightarrow> resolvable fs' loc"
  by (auto simp: resolvable_def dest: copy_keeps)

lemma save_frames_other:
  "save_frames i fs folder locs sv = Inr (sv', fs') \<Longrightarrow> n < i
   \<Longrightarrow> map_of sv' (frame_key n) = map_of sv (frame_key n)"
proof (induction locs arbitrary: i fs sv)
  case Nil
  then show ?case by simp
next
  case (Cons loc locs)
  show ?case
  proof (cases "resolvable fs loc")
    case True
    with Cons.prems(1) obtain fs1 where
      c: "copy fs (the (loc_image loc)) (frame_target folder i) = Inr fs1"
      and r: "save_frames (Suc i) fs1 folder locs
                (AList.update (frame_key i) (frame_target folder i) sv) = Inr (sv', fs')"
      by (auto split: sum.splits)
    from Cons.IH [OF r] Cons.prems(2) show ?thesis
      by (simp add: AList.update_conv')
  next
    case False
    with Cons.prems(1) have "save_frames (Suc i) fs folder locs sv = Inr (sv', fs')"
      by simp
    from Cons.IH [OF this] Cons.prems(2) show ?thesis by simp
  qed
qed

lemma save_frames_complete:
  "save_frames i fs folder locs sv = Inr (sv', fs') \<Longrightarrow> j < length locs
   \<Longrightarrow> resolvable fs (locs ! j)
   \<Longrightarrow> map_of sv' (frame_key (i + j)) = Some (frame_target folder (i + j))"
proof (induction locs arbitrary: i fs sv j)
  case Nil
  then show ?case by simp
next
  case (Cons loc locs)
  show ?case
  proof (cases "resolvable fs loc")
    case True
    with Cons.prems(1) obtain fs1 where
      c: "copy fs (the (loc_image loc)) (frame_target folder i) = Inr fs1"
      and r: "save_frames (Suc i) fs1 folder locs
                (AList.update (frame_key i) (frame_target folder i) sv) = Inr (sv', fs')"
      by (auto split: sum.splits)
    show ?thesis
    proof (cases j)
      case 0
      from save_frames_other [OF r, of i] show ?thesis
        using 0 by (simp add: AList.update_conv')
    next
      case (Suc j')
      with Cons.prems have "j' < length locs" "resolvable fs1 (locs ! j')"
        using resolvable_copy [OF c] by simp_all
      from Cons.IH [OF r this] show ?thesis using Suc by simp
    qed
  next
    case False
    with Cons.prems(1) have r: "save_frames (Suc i) fs folder locs sv = Inr (sv', fs')"
      by simp
    from False Cons.prems(3) obtain j' where j: "j = Suc j'"
      by (cases j) auto
    with Cons.prems have "j' < length locs" "resolvable fs (locs ! j')" by simp_all
    from Cons.IH [OF r this] show ?thesis using j by simp
  qed
qed

lemma save_frames_sound:
  "save_frames i fs folder locs sv = Inr (sv', fs') \<Longrightarrow> map_of sv' k \<noteq> map_of sv k
   \<Longrightarrow> \<exists>j < length locs. k = frame_key (i + j) \<and> resolvable fs' (locs ! j)
         \<and> map_of sv' k = Some (frame_target folder (i + j))"
proof (induction locs arbitrary: i fs sv)
  case Nil
  then show ?case by simp
next
  case (Cons loc locs)
  show ?case
  proof (cases "resolvable fs loc")
    case True
    with Cons.prems(1) obtain fs1 where
      c: "copy fs (the (loc_image loc)) (frame_target folder i) = Inr fs1"
      and r: "save_frames (Suc i) fs1 folder locs
                (AList.update (frame_key i) (frame_target folder i) sv) = Inr (sv', fs')"
      by (auto split: sum.splits)
    let ?sv1 = "AList.update (frame_key i) (frame_target folder i) sv"
    show ?thesis
    proof (cases "map_of sv' k = map_of ?sv1 k")
      case True
      with Cons.prems(2) have k: "k = frame_key i"
        by (auto simp: AList.update_conv' split: if_splits)
      have "resolvable fs' loc"
        using \<open>resolvable fs loc\<close> resolvable_copy [OF c] save_frames_keeps [OF r]
        by (auto simp: resolvable_def)
      moreover have "map_of sv' k = Some (frame_target folder i)"
        using True k by (simp add: AList.update_conv')
      ultimately show ?thesis using k by (intro exI [of _ 0]) simp
    next
      case False
      from Cons.IH [OF r False] obtain j where
        "j < length locs" "k = frame_key (Suc i + j)" "resolvable fs' (locs ! j)"
        "map_of sv' k = Some (frame_target folder (Suc i + j))"
        by auto
      then show ?thesis by (intro exI [of _ "Suc j"]) simp
    qed
  next
    case False
    with Cons.prems(1) have r: "save_frames (Suc i) fs folder locs sv = Inr (sv', fs')"
      by simp
    from Cons.IH [OF r Cons.prems(2)] obtain j where
      "j < length locs" "k = frame_key (Suc i + j)" "resolvable fs' (locs ! j)"
      "map_of sv' k = Some (frame_target folder (Suc i + j))"
      by auto
    then show ?thesis by (intro exI [of _ "Suc j"]) simp
  qed
qed

lemma save_plots_keeps:
  "save_plots fs folder ps sv = Inr (sv', fs') \<Longrightarrow> path_exists fs p \<Longrightarrow> path_exists fs' p"
proof (induction fs folder ps sv rule: save_plots.induct)
  case (1 fs folder sv)
  then show ?case by simp
next
  case (2 fs folder plot_name rest sv)
  then show ?case by simp
next
  case (3 fs folder plot_name plot_path rest sv)
  then show ?case
    by (auto simp: Let_def split: if_splits sum.splits dest: copy_keeps)
qed

lemma save_plots_keys:
  "save_plots fs folder ps sv = Inr (sv', fs') \<Longrightarrow> map_of sv' k \<noteq> map_of sv k
   \<Longrightarrow> k \<in> set (map fst ps)"
proof (induction fs folder ps sv rule: save_plots.induct)
  case (1 fs folder sv)
  then show ?case by simp
next
  case (2 fs folder plot_name rest sv)
  then show ?case by simp
next
  case (3 fs folder plot_name plot_path rest sv)
  then show ?case
    by (fastforce simp: Let_def AList.update_conv' split: if_splits sum.splits)
qed

lemma save_report_keeps:
  "save_report fs folder key rp sv = Inr (sv', fs') \<Longrightarrow> path_exists fs p \<Longrightarrow> path_exists fs' p"
  by (auto simp: save_report_def Let_def split: if_splits sum.splits dest: copy_keeps)

lemma save_report_keys:
  "save_report fs folder key rp sv = Inr (sv', fs') \<Longrightarrow> k \<noteq> key \<Longrightarrow> map_of sv' k = map_of sv k"
  by (auto simp: save_report_def Let_def AList.update_conv' split: if_splits sum.splits)

lemma frame_key_not_report [simp]:
  "frame_key i \<noteq> ''pdf_report''" "frame_key i \<noteq> ''html_report''" "frame_key i \<noteq> ''json_report''"
  by (simp_all add: frame_key_def)

lemma frame_key_prefix: "prefix ''anomaly_frame_'' (frame_key i)"
  by (simp add: frame_key_def)

lemma resolvable_keeps:
  "(\<And>p. path_exists fs p \<Longrightarrow> path_exists fs' p) \<Longrightarrow> resolvable fs loc \<Longrightarrow> resolvable fs' loc"
  by (simp add: resolvable_def)

lemma save_artifacts_stages:
  assumes "save_artifacts fs result folder = Inr (saved, fs')"
  obtains sv1 fs1 sv2 fs2 sv3 fs3 sv4 fs4 where
    "save_plots fs folder (plots result) [] = Inr (sv1, fs1)"
    "save_frames 0 fs1 folder (take 3 (localizations result)) sv1 = Inr (sv2, fs2)"
    "save_report fs2 folder ''pdf_report'' (pdf_report_path result) sv2 = Inr (sv3, fs3)"
    "save_report fs3 folder ''html_report'' (getattr_path (html_report_path result)) sv3 = Inr (sv4, fs4)"
    "save_report fs4 folder ''json_report'' (getattr_path (json_report_path result)) sv4 = Inr (saved, fs')"
  using assms by (auto simp: save_artifacts_def split: sum.splits)

lemma frame_target_join:
  "frame_target folder i = path_join folder (''sample_anomaly_frame_'' @ str_nat i @ ''.jpg'')"
  by (simp add: frame_target_def)

lemma frame_target_under: "lies_under folder (frame_target folder i)"
  by (simp add: frame_target_def lies_under_join)

lemma frame_target_inj [simp]: "frame_target folder i = frame_target folder j \<longleftrightarrow> i = j"
  by (auto simp: frame_target_def path_join_def dest: str_nat_inj)

lemma join_is_frame_target:
  "path_join folder name = frame_target folder i \<Longrightarrow> frame_name name"
  by (auto simp: frame_target_def path_join_def frame_name_def split: if_splits)

lemma outside_target:
  "\<not> at_or_under folder p \<Longrightarrow> \<not> at_or_under (path_join folder name) p"
  using at_or_under_trans [OF at_or_under_join] by blast

lemma save_plots_outside:
  "save_plots fs folder ps sv = Inr (sv', fs') \<Longrightarrow> \<not> at_or_under folder p
   \<Longrightarrow> map_of fs' p = map_of fs p"
proof (induction fs folder ps sv rule: save_plots.induct)
  case (3 fs folder plot_name plot_path rest sv)
  then show ?case
    by (auto simp: Let_def split: if_splits sum.splits
             dest!: copy_outside [where p = p] dest: outside_target)
qed simp_all

lemma save_frames_outside:
  "save_frames i fs folder locs sv = Inr (sv', fs') \<Longrightarrow> \<not> at_or_under folder p
   \<Longrightarrow> map_of fs' p = map_of fs p"
proof (induction locs arbitrary: i fs sv)
  case (Cons loc locs)
  then show ?case
    by (auto simp: frame_target_join simp del: frame_target_inj split: if_splits sum.splits
             dest!: copy_outside [where p = p] dest: outside_target)
qed simp

lemma save_report_outside:
  "save_report fs folder key rp sv = Inr (sv', fs') \<Longrightarrow> \<not> at_or_under folder p
   \<Longrightarrow> map_of fs' p = map_of fs p"
  by (auto simp: save_report_def Let_def split: if_splits sum.splits
           dest!: copy_outside [where p = p] dest: outside_target)

lemma save_plots_dirs:
  "save_plots fs folder ps sv = Inr (sv', fs') \<Longrightarrow> is_dir fs' p \<longleftrightarrow> is_dir fs p"
proof (induction fs folder ps sv rule: save_plots.induct)
  case (3 fs folder plot_name plot_path rest sv)
  then show ?case
    by (auto simp: Let_def split: if_splits sum.splits dest!: copy_keeps_dirs [where p = p])
qed simp_all

lemma save_frames_dirs:
  "save_frames i fs folder locs sv = Inr (sv', fs') \<Longrightarrow> is_dir fs' p \<longleftrightarrow> is_dir fs p"
proof (induction locs arbitrary: i fs sv)
  case (Cons loc locs)
  then show ?case
    by (auto split: if_splits sum.splits dest!: copy_keeps_dirs [where p = p])
qed simp

lemma save_report_dirs:
  "save_report fs folder key rp sv = Inr (sv', fs') \<Longrightarrow> is_dir fs' p \<longleftrightarrow> is_dir fs p"
  by (auto simp: save_report_def Let_def split: if_splits sum.splits
           dest!: copy_keeps_dirs [where p = p])

lemma resolvable_source:
  "resolvable fs loc \<Longrightarrow> \<exists>src. loc_image loc = Some src \<and> path_exists fs src"
  by (auto simp: resolvable_def truthy_path_def split: option.splits)

lemma truthy_path_Some: "truthy_path rp \<Longrightarrow> \<exists>src. rp = Some src"
  by (auto simp: truthy_path_def split: option.splits)

lemma save_plots_sources:
  "save_plots fs folder ps sv = Inr (sv', fs') \<Longrightarrow> map_of sv' k = Some v
   \<Longrightarrow> map_of sv k = Some v
       \<or> (\<exists>src. (k, Some src) \<in> set ps \<and> v = path_join folder (basename src)
                \<and> path_exists fs' src)"
proof (induction fs folder ps sv rule: save_plots.induct)
  case (1 fs folder sv)
  then show ?case by simp
next
  case (2 fs folder plot_name rest sv)
  then show ?case by auto
next
  case (3 fs folder plot_name plot_path rest sv)
  show ?case
  proof (cases "path_exists fs plot_path")
    case True
    with 3(3) obtain fs1 where
      c: "copy fs plot_path (path_join folder (basename plot_path)) = Inr fs1"
      and r: "save_plots fs1 folder rest
                (AList.update plot_name (path_join folder (basename plot_path)) sv)
              = Inr (sv', fs')"
      by (auto simp: Let_def split: sum.splits)
    from 3(1) [OF True refl c r 3(4)] have
      "map_of (AList.update plot_name (path_join folder (basename plot_path)) sv) k = Some v
       \<or> (\<exists>src. (k, Some src) \<in> set rest \<and> v = path_join folder (basename src)
                \<and> path_exists fs' src)" .
    moreover have "path_exists fs' plot_path"
      using True copy_keeps [OF c] save_plots_keeps [OF r] by blast
    ultimately show ?thesis
      by (auto simp: AList.update_conv' split: if_splits)
  next
    case False
    with 3(3) have r: "save_plots fs folder rest sv = Inr (sv', fs')" by simp
    from 3(2) [OF False r 3(4)] show ?thesis by auto
  qed
qed

lemma save_report_sources:
  assumes "save_report fs folder key rp sv = Inr (sv', fs')" and "map_of sv' k = Some v"
  shows "map_of sv k = Some v
       \<or> (\<exists>src. k = key \<and> rp = Some src \<and> v = path_join folder (basename src)
                \<and> path_exists fs' src)"
proof (cases "truthy_path rp \<and> path_exists fs (the rp)")
  case True
  then obtain src where s: "rp = Some src" "path_exists fs src"
    by (auto dest: truthy_path_Some)
  with True assms(1) have c: "copy fs src (path_join folder (basename src)) = Inr fs'"
    and u: "sv' = AList.update key (path_join folder (basename src)) sv"
    by (auto simp: save_report_def Let_def split: sum.splits)
  from copy_keeps [OF c s(2)] s(1) assms(2) show ?thesis
    by (auto simp: u AList.update_conv' split: if_splits)
next
  case False
  with assms show ?thesis by (auto simp: save_report_def)
qed

lemma save_frames_target_exists:
  "save_frames i fs folder locs sv = Inr (sv', fs') \<Longrightarrow> j < length locs
   \<Longrightarrow> resolvable fs (locs ! j)
   \<Longrightarrow> path_exists fs' (frame_target folder (i + j))"
proof (induction locs arbitrary: i fs sv j)
  case Nil
  then show ?case by simp
next
  case (Cons loc locs)
  show ?case
  proof (cases "resolvable fs loc")
    case True
    with Cons.prems(1) obtain fs1 where
      c: "copy fs (the (loc_image loc)) (frame_target folder i) = Inr fs1"
      and r: "save_frames (Suc i) fs1 folder locs
                (AList.update (frame_key i) (frame_target folder i) sv) = Inr (sv', fs')"
      by (auto split: sum.splits)
    show ?thesis
    proof (cases j)
      case 0
      from copy_target_exists [OF c] save_frames_keeps [OF r] show ?thesis
        using 0 by simp
    next
      case (Suc j')
      with Cons.prems have "j' < length locs" "resolvable fs1 (locs ! j')"
        using resolvable_copy [OF c] by simp_all
      from Cons.IH [OF r this] show ?thesis using Suc by simp
    qed
  next
    case False
    with Cons.prems(1) have r: "save_frames (Suc i) fs folder locs sv = Inr (sv', fs')"
      by simp
    from False Cons.prems(3) obtain j' where j: "j = Suc j'"
      by (cases j) auto
    with Cons.prems have "j' < length locs" "resolvable fs (locs ! j')" by simp_all
    from Cons.IH [OF r this] show ?thesis using j by simp
  qed
qed

text \<open>Copies into a directory that holds no directory.\<close>

lemma copy_into:
  assumes "copy fs src (path_join folder name) = Inr fs'"
      and "\<forall>q. lies_under folder q \<longrightarrow> \<not> is_dir fs q"
      and "name \<noteq> []"
  shows "\<exists>d. map_of fs src = Some (FileNode d)
           \<and> map_of fs' = (map_of fs)(path_join folder name \<mapsto> FileNode d)"
proof -
  have "\<not> is_dir fs (path_join folder name)"
    using assms(2,3) lies_under_join by blast
  with copy_map [OF assms(1)] show ?thesis by auto
qed

lemma copy_into_base:
  assumes "copy fs src (path_join folder (basename src)) = Inr fs'"
      and "is_dir fs folder"
  shows "basename src \<noteq> []"
proof
  assume e: "basename src = []"
  from copy_map [OF assms(1)] have "\<not> is_dir fs folder"
    using assms(2) by (auto simp: e path_join_def)
  with assms(2) show False by simp
qed

lemma no_dirs_copy:
  "copy fs src dst = Inr fs' \<Longrightarrow> \<forall>q. lies_under folder q \<longrightarrow> \<not> is_dir fs q
   \<Longrightarrow> \<forall>q. lies_under folder q \<longrightarrow> \<not> is_dir fs' q"
  by (simp add: copy_keeps_dirs)

lemma save_frames_only_targets:
  "save_frames i fs folder locs sv = Inr (sv', fs')
   \<Longrightarrow> \<forall>q. lies_under folder q \<longrightarrow> \<not> is_dir fs q
   \<Longrightarrow> \<forall>j < length locs. p \<noteq> frame_target folder (i + j)
   \<Longrightarrow> map_of fs' p = map_of fs p"
proof (induction locs arbitrary: i fs sv)
  case Nil
  then show ?case by simp
next
  case (Cons loc locs)
  have rest: "\<forall>j < length locs. p \<noteq> frame_target folder (Suc i + j)"
    using Cons.prems(3) by auto
  have here: "p \<noteq> frame_target folder i"
    using Cons.prems(3) by force
  show ?case
  proof (cases "resolvable fs loc")
    case True
    with Cons.prems(1) obtain fs1 where
      c: "copy fs (the (loc_image loc)) (frame_target folder i) = Inr fs1"
      and r: "save_frames (Suc i) fs1 folder locs
                (AList.update (frame_key i) (frame_target folder i) sv) = Inr (sv', fs')"
      by (auto split: sum.splits)
    from c Cons.prems(2) obtain d where
      "map_of fs1 = (map_of fs)(frame_target folder i \<mapsto> FileNode d)"
      using copy_into [of fs _ folder "''sample_anomaly_frame_'' @ str_nat i @ ''.jpg''" fs1]
      by (auto simp: frame_target_join simp del: frame_target_inj)
    with here have "map_of fs1 p = map_of fs p" by simp
    moreover from Cons.IH [OF r no_dirs_copy [OF c Cons.prems(2)] rest]
    have "map_of fs' p = map_of fs1 p" .
    ultimately show ?thesis by simp
  next
    case False
    with Cons.prems(1) have r: "save_frames (Suc i) fs folder locs sv = Inr (sv', fs')"
      by simp
    from Cons.IH [OF r Cons.prems(2) rest] show ?thesis .
  qed
qed

lemma save_frames_content:
  "save_frames i fs folder locs sv = Inr (sv', fs')
   \<Longrightarrow> \<forall>q. lies_under folder q \<longrightarrow> \<not> is_dir fs q
   \<Longrightarrow> j < length locs \<Longrightarrow> resolvable fs (locs ! j)
   \<Longrightarrow> \<not> lies_under folder (the (loc_image (locs ! j)))
   \<Longrightarrow> map_of fs' (frame_target folder (i + j)) = map_of fs (the (loc_image (locs ! j)))"
proof (induction locs arbitrary: i fs sv j)
  case Nil
  then show ?case by simp
next
  case (Cons loc locs)
  show ?case
  proof (cases "resolvable fs loc")
    case True
    with Cons.prems(1) obtain fs1 where
      c: "copy fs (the (loc_image loc)) (frame_target folder i) = Inr fs1"
      and r: "save_frames (Suc i) fs1 folder locs
                (AList.update (frame_key i) (frame_target folder i) sv) = Inr (sv', fs')"
      by (auto split: sum.splits)
    from c Cons.prems(2) obtain d where
      d: "map_of fs (the (loc_image loc)) = Some (FileNode d)"
         "map_of fs1 = (map_of fs)(frame_target folder i \<mapsto> FileNode d)"
      using copy_into [of fs _ folder "''sample_anomaly_frame_'' @ str_nat i @ ''.jpg''" fs1]
      by (auto simp: frame_target_join simp del: frame_target_inj)
    have nd: "\<forall>q. lies_under folder q \<longrightarrow> \<not> is_dir fs1 q"
      by (rule no_dirs_copy [OF c Cons.prems(2)])
    show ?thesis
    proof (cases j)
      case 0
      have "\<forall>j < length locs. frame_target folder i \<noteq> frame_target folder (Suc i + j)"
        by simp
      from save_frames_only_targets [OF r nd this]
      have "map_of fs' (frame_target folder i) = map_of fs1 (frame_target folder i)" .
      with d 0 show ?thesis by simp
    next
      case (Suc j')
      let ?img = "the (loc_image (locs ! j'))"
      from Cons.prems Suc have j': "j' < length locs" "resolvable fs (locs ! j')"
        "\<not> lies_under folder ?img" by simp_all
      then have "?img \<noteq> frame_target folder i"
        using frame_target_under [of folder i] by auto
      with d have same: "map_of fs1 ?img = map_of fs ?img" by simp
      from Cons.IH [OF r nd j'(1) resolvable_copy [OF c j'(2)] j'(3)] same
      show ?thesis using Suc by simp
    qed
  next
    case False
    with Cons.prems(1) have r: "save_frames (Suc i) fs folder locs sv = Inr (sv', fs')"
      by simp
    from False Cons.prems(4) obtain j' where j: "j = Suc j'"
      by (cases j) auto
    with Cons.prems have "j' < length locs" "resolvable fs (locs ! j')"
      "\<not> lies_under folder (the (loc_image (locs ! j')))" by simp_all
    from Cons.IH [OF r Cons.prems(2) this] show ?thesis using j by simp
  qed
qed

lemma save_frames_skipped:
  "save_frames i fs folder locs sv = Inr (sv', fs')
   \<Longrightarrow> \<forall>q. lies_under folder q \<longrightarrow> \<not> is_dir fs q
   \<Longrightarrow> j < length locs \<Longrightarrow> \<not> resolvable fs' (locs ! j)
   \<Longrightarrow> map_of fs' (frame_target folder (i + j)) = map_of fs (frame_target folder (i + j))"
proof (induction locs arbitrary: i fs sv j)
  case Nil
  then show ?case by simp
next
  case (Cons loc locs)
  show ?case
  proof (cases "resolvable fs loc")
    case True
    with Cons.prems(1) obtain fs1 where
      c: "copy fs (the (loc_image loc)) (frame_target folder i) = Inr fs1"
      and r: "save_frames (Suc i) fs1 folder locs
                (AList.update (frame_key i) (frame_target folder i) sv) = Inr (sv', fs')"
      by (auto split: sum.splits)
    from c Cons.prems(2) obtain d where
      d: "map_of fs1 = (map_of fs)(frame_target folder i \<mapsto> FileNode d)"
      using copy_into [of fs _ folder "''sample_anomaly_frame_'' @ str_nat i @ ''.jpg''" fs1]
      by (auto simp: frame_target_join simp del: frame_target_inj)
    have nd: "\<forall>q. lies_under folder q \<longrightarrow> \<not> is_dir fs1 q"
      by (rule no_dirs_copy [OF c Cons.prems(2)])
    have "resolvable fs' loc"
      using True resolvable_copy [OF c] save_frames_keeps [OF r]
      by (auto simp: resolvable_def)
    with Cons.prems(4) obtain j' where j: "j = Suc j'"
      by (cases j) auto
    with Cons.prems have j': "j' < length locs" "\<not> resolvable fs' (locs ! j')" by simp_all
    from Cons.IH [OF r nd j'] d show ?thesis using j by simp
  next
    case False
    with Cons.prems(1) have r: "save_frames (Suc i) fs folder locs sv = Inr (sv', fs')"
      by simp
    show ?thesis
    proof (cases j)
      case 0
      have "\<forall>j < length locs. frame_target folder i \<noteq> frame_target folder (Suc i + j)"
        by simp
      from save_frames_only_targets [OF r Cons.prems(2) this] 0 show ?thesis by simp
    next
      case (Suc j')
      with Cons.prems have "j' < length locs" "\<not> resolvable fs' (locs ! j')" by simp_all
      from Cons.IH [OF r Cons.prems(2) this] show ?thesis using Suc by simp
    qed
  qed
qed

lemma save_plots_targets:
  "save_plots fs folder ps sv = Inr (sv', fs') \<Longrightarrow> is_dir fs folder
   \<Longrightarrow> \<forall>q. lies_under folder q \<longrightarrow> \<not> is_dir fs q
   \<Longrightarrow> map_of fs' p \<noteq> map_of fs p
   \<Longrightarrow> \<exists>src \<in> set (List.map_filter snd ps). p = path_join folder (basename src)"
proof (induction fs folder ps sv rule: save_plots.induct)
  case (1 fs folder sv)
  then show ?case by simp
next
  case (2 fs folder plot_name rest sv)
  then show ?case by (auto simp: List.map_filter_simps)
next
  case (3 fs folder plot_name plot_path rest sv)
  show ?case
  proof (cases "path_exists fs plot_path")
    case True
    with 3(3) obtain fs1 where
      c: "copy fs plot_path (path_join folder (basename plot_path)) = Inr fs1"
      and r: "save_plots fs1 folder rest
                (AList.update plot_name (path_join folder (basename plot_path)) sv)
              = Inr (sv', fs')"
      by (auto simp: Let_def split: sum.splits)
    from copy_into [OF c 3(5) copy_into_base [OF c 3(4)]] obtain d where
      d: "map_of fs1 = (map_of fs)(path_join folder (basename plot_path) \<mapsto> FileNode d)"
      by blast
    have dir1: "is_dir fs1 folder" using 3(4) copy_keeps_dirs [OF c] by simp
    have nd: "\<forall>q. lies_under folder q \<longrightarrow> \<not> is_dir fs1 q"
      by (rule no_dirs_copy [OF c 3(5)])
    show ?thesis
    proof (cases "map_of fs' p = map_of fs1 p")
      case True
      with 3(6) d have "p = path_join folder (basename plot_path)"
        by (auto split: if_splits)
      then show ?thesis by (auto simp: List.map_filter_simps)
    next
      case False
      from 3(1) [OF \<open>path_exists fs plot_path\<close> refl c r dir1 nd False]
      show ?thesis by (auto simp: List.map_filter_simps)
    qed
  next
    case False
    with 3(3) have r: "save_plots fs folder rest sv = Inr (sv', fs')" by simp
    from 3(2) [OF False r 3(4) 3(5) 3(6)] show ?thesis
      by (auto simp: List.map_filter_simps)
  qed
qed

lemma save_report_targets:
  assumes "save_report fs folder key rp sv = Inr (sv', fs')" and "is_dir fs folder"
      and "\<forall>q. lies_under folder q \<longrightarrow> \<not> is_dir fs q"
      and "map_of fs' p \<noteq> map_of fs p"
  shows "\<exists>src. rp = Some src \<and> p = path_join folder (basename src)"
proof (cases "truthy_path rp \<and> path_exists fs (the rp)")
  case True
  then obtain src where s: "rp = Some src" by (auto dest: truthy_path_Some)
  with True assms(1) have c: "copy fs src (path_join folder (basename src)) = Inr fs'"
    by (auto simp: save_report_def Let_def split: sum.splits)
  from copy_into [OF c assms(3) copy_into_base [OF c assms(2)]] assms(4) s
  show ?thesis by (auto split: if_splits)
next
  case False
  with assms show ?thesis by (auto simp: save_report_def)
qed

lemma empty_dir_none: "empty_dir fs d \<Longrightarrow> lies_under d q \<Longrightarrow> map_of fs q = None"
proof -
  assume e: "empty_dir fs d" and u: "lies_under d q"
  have "q \<notin> fst ` set fs"
    using e u by (auto simp: empty_dir_def list_ex_iff)
  then show ?thesis by (simp add: map_of_eq_None_iff)
qed

lemma empty_dir_no_dirs: "empty_dir fs d \<Longrightarrow> \<forall>q. lies_under d q \<longrightarrow> \<not> is_dir fs q"
  by (auto simp: is_dir_def dest: empty_dir_none)

lemma save_report_frame_target:
  assumes "save_report fs folder key rp sv = Inr (sv', fs')" and "is_dir fs folder"
      and "\<forall>q. lies_under folder q \<longrightarrow> \<not> is_dir fs q"
      and "\<forall>src. rp = Some src \<longrightarrow> \<not> frame_name (basename src)"
  shows "map_of fs' (frame_target folder i) = map_of fs (frame_target folder i)"
proof (rule ccontr)
  assume "map_of fs' (frame_target folder i) \<noteq> map_of fs (frame_target folder i)"
  from save_report_targets [OF assms(1-3) this] obtain src where
    "rp = Some src" "frame_target folder i = path_join folder (basename src)" by blast
  with assms(4) join_is_frame_target [of folder "basename src" i] show False by simp
qed

lemma save_plots_frame_target:
  assumes "save_plots fs folder ps sv = Inr (sv', fs')" and "is_dir fs folder"
      and "\<forall>q. lies_under folder q \<longrightarrow> \<not> is_dir fs q"
      and "\<forall>src \<in> set (List.map_filter snd ps). \<not> frame_name (basename src)"
  shows "map_of fs' (frame_target folder i) = map_of fs (frame_target folder i)"
proof (rule ccontr)
  assume "map_of fs' (frame_target folder i) \<noteq> map_of fs (frame_target folder i)"
  from save_plots_targets [OF assms(1-3) this] obtain src where
    "src \<in> set (List.map_filter snd ps)" "frame_target folder i = path_join folder (basename src)"
    by blast
  with assms(4) join_is_frame_target [of folder "basename src" i] show False by simp
qed

lemma save_artifacts_outside:
  assumes "save_artifacts fs result folder = Inr (saved, fs')" and "\<not> at_or_under folder p"
  shows "map_of fs' p = map_of fs p"
proof -
  from assms(1) obtain sv1 fs1 sv2 fs2 sv3 fs3 sv4 fs4 where
    st: "save_plots fs folder (plots result) [] = Inr (sv1, fs1)"
        "save_frames 0 fs1 folder (take 3 (localizations result)) sv1 = Inr (sv2, fs2)"
        "save_report fs2 folder ''pdf_report'' (pdf_report_path result) sv2 = Inr (sv3, fs3)"
        "save_report fs3 folder ''html_report'' (getattr_path (html_report_path result)) sv3 = Inr (sv4, fs4)"
        "save_report fs4 folder ''json_report'' (getattr_path (json_report_path result)) sv4 = Inr (saved, fs')"
    by (rule save_artifacts_stages)
  show ?thesis
    using save_plots_outside [OF st(1) assms(2)] save_frames_outside [OF st(2) assms(2)]
      save_report_outside [OF st(3) assms(2)] save_report_outside [OF st(4) assms(2)]
      save_report_outside [OF st(5) assms(2)] by simp
qed

lemma save_artifacts_dirs:
  assumes "save_artifacts fs result folder = Inr (saved, fs')"
  shows "is_dir fs' p \<longleftrightarrow> is_dir fs p"
proof -
  from assms(1) obtain sv1 fs1 sv2 fs2 sv3 fs3 sv4 fs4 where
    st: "save_plots fs folder (plots result) [] = Inr (sv1, fs1)"
        "save_frames 0 fs1 folder (take 3 (localizations result)) sv1 = Inr (sv2, fs2)"
        "save_report fs2 folder ''pdf_report'' (pdf_report_path result) sv2 = Inr (sv3, fs3)"
        "save_report fs3 folder ''html_report'' (getattr_path (html_report_path result)) sv3 = Inr (sv4, fs4)"
        "save_report fs4 folder ''json_report'' (getattr_path (json_report_path result)) sv4 = Inr (saved, fs')"
    by (rule save_artifacts_stages)
  show ?thesis
    using save_plots_dirs [OF st(1)] save_frames_dirs [OF st(2)]
      save_report_dirs [OF st(3)] save_report_dirs [OF st(4)] save_report_dirs [OF st(5)]
    by simp
qed

lemma save_artifacts_keeps:
  assumes "save_artifacts fs result folder = Inr (saved, fs')" and "path_exists fs p"
  shows "path_exists fs' p"
proof -
  from assms(1) obtain sv1 fs1 sv2 fs2 sv3 fs3 sv4 fs4 where
    st: "save_plots fs folder (plots result) [] = Inr (sv1, fs1)"
        "save_frames 0 fs1 folder (take 3 (localizations result)) sv1 = Inr (sv2, fs2)"
        "save_report fs2 folder ''pdf_report'' (pdf_report_path result) sv2 = Inr (sv3, fs3)"
        "save_report fs3 folder ''html_report'' (getattr_path (html_report_path result)) sv3 = Inr (sv4, fs4)"
        "save_report fs4 folder ''json_report'' (getattr_path (json_report_path result)) sv4 = Inr (saved, fs')"
    by (rule save_artifacts_stages)
  show ?thesis
    using assms(2) save_plots_keeps [OF st(1)] save_frames_keeps [OF st(2)]
      save_report_keeps [OF st(3)] save_report_keeps [OF st(4)] save_report_keeps [OF st(5)]
    by blast
qed

text \<open>Every entry of the output stands for a file that exists.\<close>

lemma save_artifacts_sources:
  assumes "save_artifacts fs result folder = Inr (saved, fs')" and "map_of saved k = Some v"
  shows "\<exists>src. path_exists fs' src \<and> entry_source result folder k v src"
proof -
  let ?locs = "localizations result"
  from assms(1) obtain sv1 fs1 sv2 fs2 sv3 fs3 sv4 fs4 where
    st: "save_plots fs folder (plots result) [] = Inr (sv1, fs1)"
        "save_frames 0 fs1 folder (take 3 ?locs) sv1 = Inr (sv2, fs2)"
        "save_report fs2 folder ''pdf_report'' (pdf_report_path result) sv2 = Inr (sv3, fs3)"
        "save_report fs3 folder ''html_report'' (getattr_path (html_report_path result)) sv3 = Inr (sv4, fs4)"
        "save_report fs4 folder ''json_report'' (getattr_path (json_report_path result)) sv4 = Inr (saved, fs')"
    by (rule save_artifacts_stages)
  have k4: "path_exists fs4 p \<Longrightarrow> path_exists fs' p" for p
    using save_report_keeps [OF st(5)] by blast
  have k3: "path_exists fs3 p \<Longrightarrow> path_exists fs' p" for p
    using save_report_keeps [OF st(4)] k4 by blast
  have k2: "path_exists fs2 p \<Longrightarrow> path_exists fs' p" for p
    using save_report_keeps [OF st(3)] k3 by blast
  have k1: "path_exists fs1 p \<Longrightarrow> path_exists fs' p" for p
    using save_frames_keeps [OF st(2)] k2 by blast
  consider
      (json) src where "k = ''json_report''" "getattr_path (json_report_path result) = Some src"
        "v = path_join folder (basename src)" "path_exists fs' src"
    | (html) src where "k = ''html_report''" "getattr_path (html_report_path result) = Some src"
        "v = path_join folder (basename src)" "path_exists fs4 src"
    | (pdf) src where "k = ''pdf_report''" "pdf_report_path result = Some src"
        "v = path_join folder (basename src)" "path_exists fs3 src"
    | (earlier) "map_of sv2 k = Some v"
    using save_report_sources [OF st(5) assms(2)] save_report_sources [OF st(4), of k v]
      save_report_sources [OF st(3), of k v] by blast
  then show ?thesis
  proof cases
    case json
    then show ?thesis by (auto simp: entry_source_def)
  next
    case html
    then show ?thesis using k4 by (auto simp: entry_source_def)
  next
    case pdf
    then show ?thesis using k3 by (auto simp: entry_source_def)
  next
    case earlier
    show ?thesis
    proof (cases "map_of sv2 k = map_of sv1 k")
      case True
      with earlier have "map_of sv1 k = Some v" by simp
      from save_plots_sources [OF st(1) this] obtain src where
        "(k, Some src) \<in> set (plots result)" "v = path_join folder (basename src)"
        "path_exists fs1 src" by auto
      then show ?thesis using k1 by (auto simp: entry_source_def)
    next
      case False
      from save_frames_sound [OF st(2) False] obtain j where
        j: "j < length (take 3 ?locs)" "k = frame_key (0 + j)"
           "resolvable fs2 (take 3 ?locs ! j)"
           "map_of sv2 k = Some (frame_target folder (0 + j))"
        by blast
      from j(1) have j3: "j < min 3 (length ?locs)" by simp
      with j(3) have "resolvable fs2 (?locs ! j)" by simp
      then obtain src where "loc_image (?locs ! j) = Some src" "path_exists fs2 src"
        by (auto dest: resolvable_source)
      with j j3 earlier k2 have "path_exists fs' src \<and> entry_source result folder k v src"
        unfolding entry_source_def by auto
      then show ?thesis by blast
    qed
  qed
qed

lemma save_artifacts_frame_files:
  assumes sa: "save_artifacts fs result folder = Inr (saved, fs')"
      and em: "empty_dir fs folder"
      and nm: "list_all (\<lambda>src. \<not> frame_name (basename src)) (other_sources result)"
  shows "i < 3 \<and> i < length (localizations result) \<and> resolvable fs (localizations result ! i)
         \<Longrightarrow> map_of fs' (frame_target folder i)
             = map_of fs (the (loc_image (localizations result ! i)))"
    and "\<not> (i < 3 \<and> i < length (localizations result) \<and> resolvable fs' (localizations result ! i))
         \<Longrightarrow> map_of fs' (frame_target folder i) = None"
proof -
  let ?locs = "localizations result"
  from sa obtain sv1 fs1 sv2 fs2 sv3 fs3 sv4 fs4 where
    st: "save_plots fs folder (plots result) [] = Inr (sv1, fs1)"
        "save_frames 0 fs1 folder (take 3 ?locs) sv1 = Inr (sv2, fs2)"
        "save_report fs2 folder ''pdf_report'' (pdf_report_path result) sv2 = Inr (sv3, fs3)"
        "save_report fs3 folder ''html_report'' (getattr_path (html_report_path result)) sv3 = Inr (sv4, fs4)"
        "save_report fs4 folder ''json_report'' (getattr_path (json_report_path result)) sv4 = Inr (saved, fs')"
    by (rule save_artifacts_stages)
  have d0: "is_dir fs folder" using em by (simp add: empty_dir_def)
  have n0: "\<forall>q. lies_under folder q \<longrightarrow> \<not> is_dir fs q" by (rule empty_dir_no_dirs [OF em])
  have d1: "is_dir fs1 folder" and n1: "\<forall>q. lies_under folder q \<longrightarrow> \<not> is_dir fs1 q"
    using d0 n0 save_plots_dirs [OF st(1)] by simp_all
  have d2: "is_dir fs2 folder" and n2: "\<forall>q. lies_under folder q \<longrightarrow> \<not> is_dir fs2 q"
    using d1 n1 save_frames_dirs [OF st(2)] by simp_all
  have d3: "is_dir fs3 folder" and n3: "\<forall>q. lies_under folder q \<longrightarrow> \<not> is_dir fs3 q"
    using d2 n2 save_report_dirs [OF st(3)] by simp_all
  have d4: "is_dir fs4 folder" and n4: "\<forall>q. lies_under folder q \<longrightarrow> \<not> is_dir fs4 q"
    using d3 n3 save_report_dirs [OF st(4)] by simp_all
  have plots_names: "\<forall>src \<in> set (List.map_filter snd (plots result)). \<not> frame_name (basename src)"
    using nm by (auto simp: other_sources_def list_all_iff)
  have pdf_name: "\<forall>src. pdf_report_path result = Some src \<longrightarrow> \<not> frame_name (basename src)"
    using nm by (auto simp: other_sources_def List.map_filter_simps)
  have html_name: "\<forall>src. getattr_path (html_report_path result) = Some src
                     \<longrightarrow> \<not> frame_name (basename src)"
    using nm by (auto simp: other_sources_def List.map_filter_simps split: option.splits)
  have json_name: "\<forall>src. getattr_path (json_report_path result) = Some src
                     \<longrightarrow> \<not> frame_name (basename src)"
    using nm by (auto simp: other_sources_def List.map_filter_simps split: option.splits)
  have before: "map_of fs1 (frame_target folder i) = None"
    using save_plots_frame_target [OF st(1) d0 n0 plots_names, of i]
      empty_dir_none [OF em frame_target_under [of folder i]] by simp
  have after: "map_of fs' (frame_target folder i) = map_of fs2 (frame_target folder i)"
    using save_report_frame_target [OF st(3) d2 n2 pdf_name, of i]
      save_report_frame_target [OF st(4) d3 n3 html_name, of i]
      save_report_frame_target [OF st(5) d4 n4 json_name, of i] by simp
  have later: "path_exists fs2 p \<Longrightarrow> path_exists fs' p" for p
    using save_report_keeps [OF st(3)] save_report_keeps [OF st(4)] save_report_keeps [OF st(5)]
    by blast
  show "map_of fs' (frame_target folder i) = map_of fs (the (loc_image (?locs ! i)))"
    if i: "i < 3 \<and> i < length ?locs \<and> resolvable fs (?locs ! i)"
  proof -
    let ?img = "the (loc_image (?locs ! i))"
    from i have ex: "path_exists fs ?img" by (simp add: resolvable_def)
    then have out: "\<not> lies_under folder ?img"
      using empty_dir_none [OF em, of ?img] by (auto simp: path_exists_def)
    have same: "map_of fs1 ?img = map_of fs ?img"
    proof (cases "?img = folder")
      case True
      with d0 d1 show ?thesis by (simp add: is_dir_def)
    next
      case False
      with out have "\<not> at_or_under folder ?img" by (simp add: at_or_under_def)
      from save_plots_outside [OF st(1) this] show ?thesis .
    qed
    have r1: "resolvable fs1 (take 3 ?locs ! i)"
      using i save_plots_keeps [OF st(1)] by (auto intro: resolvable_keeps)
    from save_frames_content [OF st(2) n1 _ r1] i out
    have "map_of fs2 (frame_target folder (0 + i)) = map_of fs1 ?img" by simp
    with after same show ?thesis by simp
  qed
  show "map_of fs' (frame_target folder i) = None"
    if i: "\<not> (i < 3 \<and> i < length ?locs \<and> resolvable fs' (?locs ! i))"
  proof (cases "i < length (take 3 ?locs)")
    case True
    with i have "\<not> resolvable fs' (take 3 ?locs ! i)" by simp
    then have "\<not> resolvable fs2 (take 3 ?locs ! i)"
      using later by (auto intro: resolvable_keeps)
    from save_frames_skipped [OF st(2) n1 True this] before after show ?thesis by simp
  next
    case False
    then have "\<forall>j < length (take 3 ?locs). frame_target folder i \<noteq> frame_target folder (0 + j)"
      by auto
    from save_frames_only_targets [OF st(2) n1 this] before after show ?thesis by simp
  qed
qed

lemma frames_run:
  "save_artifacts frames_fs (example_result frames_locs) ''analysis_artifacts/run-0''
   = Inr ([(''anomaly_frame_1'', ''analysis_artifacts/run-0/sample_anomaly_frame_1.jpg''),
           (''anomaly_frame_2'', ''analysis_artifacts/run-0/sample_anomaly_frame_2.jpg'')],
          frames_fs @
          [(''analysis_artifacts/run-0/sample_anomaly_frame_1.jpg'', FileNode (NotText ''A'')),
           (''analysis_artifacts/run-0/sample_anomaly_frame_2.jpg'', FileNode (NotText ''B''))])"
  by (simp add: save_artifacts_def example_result_def save_report_def getattr_path_def
        truthy_path_def frames_locs_def frames_fs_def with_image_def event_only_def
        resolvable_def path_exists_def copy_def open_write_def is_dir_def frame_target_def
        frame_key_def path_join_def parent_error_def parent_def basename_def Let_def)


subsection \<open>The anomaly-frame rule\<close>

text \<open>
  C2, as stated, fails: the loop runs over \<^verbatim>\<open>localizations[:3]\<close>, the first three events,
  and not over the first three events that carry an image; the key bears the event's
  position. With an event without image in front of three events with images, the first
  image is stored as \<^verbatim>\<open>anomaly_frame_1\<close>, the second as \<^verbatim>\<open>anomaly_frame_2\<close>, and the third
  is not copied; the specification's rule gives the keys 0, 1 and 2 to the three images.
\<close>

theorem anomaly_frames_counterexample:
  "map_sum id fst
     (save_artifacts frames_fs (example_result frames_locs) ''analysis_artifacts/run-0'')
   = Inr [(''anomaly_frame_1'', ''analysis_artifacts/run-0/sample_anomaly_frame_1.jpg''),
          (''anomaly_frame_2'', ''analysis_artifacts/run-0/sample_anomaly_frame_2.jpg'')]
   \<and> spec_anomaly_frames frames_fs frames_locs
     = [(''anomaly_frame_0'', ''/tmp/a.jpg''), (''anomaly_frame_1'', ''/tmp/b.jpg''),
        (''anomaly_frame_2'', ''/tmp/c.jpg'')]"
proof -
  have "spec_anomaly_frames frames_fs frames_locs
     = [(''anomaly_frame_0'', ''/tmp/a.jpg''), (''anomaly_frame_1'', ''/tmp/b.jpg''),
        (''anomaly_frame_2'', ''/tmp/c.jpg'')]"
    by (simp add: spec_anomaly_frames_def frames_locs_def frames_fs_def with_image_def
          event_only_def resolvable_def truthy_path_def path_exists_def frame_key_def)
  then show ?thesis by (simp add: frames_run)
qed

text \<open>
  C2, amended. When \<open>save_artifacts\<close> returns:

    \<^item> every event among the first three of the localizations (by position, with or without
      image) that carries a resolvable image path is keyed \<^verbatim>\<open>anomaly_frame_i\<close>, \<open>i\<close> its
      position, with the path \<^verbatim>\<open>sample_anomaly_frame_i.jpg\<close> in the record's folder, and
      that file exists afterwards;
    \<^item> every entry of the output, of whatever kind, stands for a source file that exists:
      a plot of that name, the image of the event of that position among the first three,
      or the report of that kind;
    \<^item> no path outside the record's folder is created or changed;
    \<^item> unless a plot bears such a name, every \<^verbatim>\<open>anomaly_frame_i\<close> entry belongs to an event
      \<open>i\<close> below 3 whose image exists;
    \<^item> in a folder that was empty, no plot or report file bearing the name of a frame, the
      file \<^verbatim>\<open>sample_anomaly_frame_i.jpg\<close> holds what the image of event \<open>i\<close> held for each
      of those events, and for every other \<open>i\<close> there is no such file: at most three
      frames are copied.
\<close>

theorem anomaly_frames_rule:
  assumes "save_artifacts fs result folder = Inr (saved, fs')"
  shows "(\<forall>i. i < 3 \<and> i < length (localizations result)
              \<and> resolvable fs (localizations result ! i)
            \<longrightarrow> map_of saved (frame_key i) = Some (frame_target folder i)
                \<and> path_exists fs' (frame_target folder i))
       \<and> (\<forall>k v. map_of saved k = Some v
            \<longrightarrow> (\<exists>src. path_exists fs' src \<and> entry_source result folder k v src))
       \<and> (\<forall>p. map_of fs' p \<noteq> map_of fs p \<longrightarrow> at_or_under folder p)
       \<and> (list_all (\<lambda>(plot_name, p). \<not> prefix ''anomaly_frame_'' plot_name) (plots result)
            \<longrightarrow> (\<forall>i v. map_of saved (frame_key i) = Some v
                   \<longrightarrow> i < 3 \<and> i < length (localizations result)
                       \<and> resolvable fs' (localizations result ! i)
                       \<and> v = frame_target folder i))
       \<and> (empty_dir fs folder
          \<and> list_all (\<lambda>src. \<not> frame_name (basename src)) (other_sources result)
            \<longrightarrow> (\<forall>i. (i < 3 \<and> i < length (localizations result)
                       \<and> resolvable fs (localizations result ! i)
                      \<longrightarrow> map_of fs' (frame_target folder i)
                          = map_of fs (the (loc_image (localizations result ! i))))
                   \<and> (\<not> (i < 3 \<and> i < length (localizations result)
                          \<and> resolvable fs' (localizations result ! i))
                      \<longrightarrow> map_of fs' (frame_target folder i) = None)))"
proof -
  let ?locs = "localizations result"
  from assms obtain sv1 fs1 sv2 fs2 sv3 fs3 sv4 fs4 where
    st: "save_plots fs folder (plots result) [] = Inr (sv1, fs1)"
        "save_frames 0 fs1 folder (take 3 ?locs) sv1 = Inr (sv2, fs2)"
        "save_report fs2 folder ''pdf_report'' (pdf_report_path result) sv2 = Inr (sv3, fs3)"
        "save_report fs3 folder ''html_report'' (getattr_path (html_report_path result)) sv3 = Inr (sv4, fs4)"
        "save_report fs4 folder ''json_report'' (getattr_path (json_report_path result)) sv4 = Inr (saved, fs')"
    by (rule save_artifacts_stages)
  have same: "map_of saved (frame_key i) = map_of sv2 (frame_key i)" for i
    using save_report_keys [OF st(5), of "frame_key i"] save_report_keys [OF st(4), of "frame_key i"]
      save_report_keys [OF st(3), of "frame_key i"] by simp
  have later: "path_exists fs2 p \<Longrightarrow> path_exists fs' p" for p
    using save_report_keeps [OF st(3)] save_report_keeps [OF st(4)] save_report_keeps [OF st(5)]
    by blast
  have complete: "map_of saved (frame_key i) = Some (frame_target folder i)
                  \<and> path_exists fs' (frame_target folder i)"
    if i: "i < 3 \<and> i < length ?locs \<and> resolvable fs (?locs ! i)" for i
  proof -
    have r: "resolvable fs1 (take 3 ?locs ! i)"
      using i save_plots_keeps [OF st(1)] by (auto intro: resolvable_keeps)
    from save_frames_complete [OF st(2) _ r] save_frames_target_exists [OF st(2) _ r] i later
    show ?thesis by (simp add: same)
  qed
  have sources: "\<exists>src. path_exists fs' src \<and> entry_source result folder k v src"
    if "map_of saved k = Some v" for k v
    using assms that by (rule save_artifacts_sources)
  have inside: "at_or_under folder p" if "map_of fs' p \<noteq> map_of fs p" for p
    using save_artifacts_outside [OF assms, of p] that by blast
  have sound: "i < 3 \<and> i < length ?locs \<and> resolvable fs' (?locs ! i) \<and> v = frame_target folder i"
    if np: "list_all (\<lambda>(plot_name, p). \<not> prefix ''anomaly_frame_'' plot_name) (plots result)"
    and v: "map_of saved (frame_key i) = Some v" for i v
  proof -
    have "frame_key i \<notin> set (map fst (plots result))"
      using np frame_key_prefix [of i] by (auto simp: list_all_iff)
    then have "map_of sv1 (frame_key i) = None"
      using save_plots_keys [OF st(1), of "frame_key i"] by auto
    then have "map_of sv2 (frame_key i) \<noteq> map_of sv1 (frame_key i)"
      using v by (simp add: same)
    from save_frames_sound [OF st(2) this] obtain j where
      j: "j < length (take 3 ?locs)" "frame_key i = frame_key (0 + j)"
         "resolvable fs2 (take 3 ?locs ! j)"
         "map_of sv2 (frame_key i) = Some (frame_target folder (0 + j))"
      by blast
    then have "i = j" by simp
    with j v later show ?thesis
      by (auto simp: same intro: resolvable_keeps)
  qed
  have files: "(i < 3 \<and> i < length ?locs \<and> resolvable fs (?locs ! i)
                 \<longrightarrow> map_of fs' (frame_target folder i) = map_of fs (the (loc_image (?locs ! i))))
             \<and> (\<not> (i < 3 \<and> i < length ?locs \<and> resolvable fs' (?locs ! i))
                 \<longrightarrow> map_of fs' (frame_target folder i) = None)"
    if "empty_dir fs folder"
       "list_all (\<lambda>src. \<not> frame_name (basename src)) (other_sources result)" for i
    using save_artifacts_frame_files [OF assms that, of i] by blast
  from complete sources inside sound files show ?thesis by blast
qed

theorem anomaly_frames_rule_witness:
  "\<exists>saved fs'.
     save_artifacts frames_fs (example_result frames_locs) ''analysis_artifacts/run-0''
       = Inr (saved, fs')
     \<and> (1::nat) < 3 \<and> 1 < length (localizations (example_result frames_locs))
     \<and> resolvable frames_fs (localizations (example_result frames_locs) ! 1)
     \<and> \<not> resolvable fs' (localizations (example_result frames_locs) ! 0)
     \<and> list_all (\<lambda>(plot_name, p). \<not> prefix ''anomaly_frame_'' plot_name)
          (plots (example_result frames_locs))
     \<and> empty_dir frames_fs ''analysis_artifacts/run-0''
     \<and> list_all (\<lambda>src. \<not> frame_name (basename src))
          (other_sources (example_result frames_locs))
     \<and> map_of saved (frame_key 1) = Some (frame_target ''analysis_artifacts/run-0'' 1)
     \<and> path_exists fs' (frame_target ''analysis_artifacts/run-0'' 1)
     \<and> (\<exists>src. path_exists fs' src
           \<and> entry_source (example_result frames_locs) ''analysis_artifacts/run-0''
               (frame_key 1) (frame_target ''analysis_artifacts/run-0'' 1) src)
     \<and> map_of fs' (frame_target ''analysis_artifacts/run-0'' 1)
         \<noteq> map_of frames_fs (frame_target ''analysis_artifacts/run-0'' 1)
     \<and> at_or_under ''analysis_artifacts/run-0'' (frame_target ''analysis_artifacts/run-0'' 1)
     \<and> resolvable fs' (localizations (example_result frames_locs) ! 1)
     \<and> map_of fs' (frame_target ''analysis_artifacts/run-0'' 1)
         = map_of frames_fs ''/tmp/a.jpg''
     \<and> map_of fs' (frame_target ''analysis_artifacts/run-0'' 0) = None
     \<and> map_of fs' (frame_target ''analysis_artifacts/run-0'' 3) = None"
proof -
  let ?fs' = "frames_fs @
          [(''analysis_artifacts/run-0/sample_anomaly_frame_1.jpg'', FileNode (NotText ''A'')),
           (''analysis_artifacts/run-0/sample_anomaly_frame_2.jpg'', FileNode (NotText ''B''))]"
  let ?saved = "[(''anomaly_frame_1'', ''analysis_artifacts/run-0/sample_anomaly_frame_1.jpg''),
             (''anomaly_frame_2'', ''analysis_artifacts/run-0/sample_anomaly_frame_2.jpg'')]"
  let ?locs = "localizations (example_result frames_locs)"
  have h: "(1::nat) < 3 \<and> 1 < length ?locs \<and> resolvable frames_fs (?locs ! 1)"
    by (simp add: frames_locs_def frames_fs_def with_image_def event_only_def resolvable_def
          truthy_path_def path_exists_def example_result_def)
  have img: "the (loc_image (?locs ! 1)) = ''/tmp/a.jpg''"
    by (simp add: frames_locs_def with_image_def event_only_def example_result_def)
  have h0: "\<not> resolvable ?fs' (?locs ! 0)"
    by (simp add: frames_locs_def event_only_def resolvable_def truthy_path_def
          example_result_def)
  have p: "list_all (\<lambda>(plot_name, p). \<not> prefix ''anomaly_frame_'' plot_name)
             (plots (example_result frames_locs))"
    by (simp add: example_result_def)
  have e: "empty_dir frames_fs ''analysis_artifacts/run-0''"
    by (simp add: empty_dir_def frames_fs_def is_dir_def lies_under_def)
  have o: "list_all (\<lambda>src. \<not> frame_name (basename src))
             (other_sources (example_result frames_locs))"
    by (simp add: other_sources_def example_result_def getattr_path_def
          List.map_filter_simps)
  have k: "map_of ?saved (frame_key 1) = Some (frame_target ''analysis_artifacts/run-0'' 1)"
    by (simp add: frame_key_def frame_target_def path_join_def)
  have c: "map_of ?fs' (frame_target ''analysis_artifacts/run-0'' 1)
           \<noteq> map_of frames_fs (frame_target ''analysis_artifacts/run-0'' 1)"
    by (simp add: frames_fs_def frame_target_def path_join_def)
  note rule = anomaly_frames_rule [OF frames_run]
  from rule h have a1: "path_exists ?fs' (frame_target ''analysis_artifacts/run-0'' 1)"
    by blast
  from rule k have a2: "\<exists>src. path_exists ?fs' src
           \<and> entry_source (example_result frames_locs) ''analysis_artifacts/run-0''
               (frame_key 1) (frame_target ''analysis_artifacts/run-0'' 1) src"
    by blast
  from rule c have a3:
    "at_or_under ''analysis_artifacts/run-0'' (frame_target ''analysis_artifacts/run-0'' 1)"
    by blast
  from rule p k have a4: "resolvable ?fs' (?locs ! 1)"
    by blast
  from rule e o h img have a5: "map_of ?fs' (frame_target ''analysis_artifacts/run-0'' 1)
         = map_of frames_fs ''/tmp/a.jpg''"
    by metis
  from rule e o h0 have a6: "map_of ?fs' (frame_target ''analysis_artifacts/run-0'' 0) = None"
    by blast
  have "\<not> ((3::nat) < 3 \<and> 3 < length ?locs \<and> resolvable ?fs' (?locs ! 3))"
    by simp
  with rule e o have a7: "map_of ?fs' (frame_target ''analysis_artifacts/run-0'' 3) = None"
    by blast
  from frames_run h h0 p e o k c a1 a2 a3 a4 a5 a6 a7 show ?thesis
    by blast
qed


subsection \<open>What a save leaves in the collection\<close>


lemma saved_entry_last:
  "stored_records self w' = es @ [e] \<Longrightarrow> saved_entry self (Inr (aid, w')) = Some e"
  by (cases es) (simp_all add: saved_entry_def)

text \<open>What \<open>save_analysis\<close> leaves in the history file.\<close>

lemma save_analysis_appends:
  assumes "save_analysis self w result video_name additional_info = Inr (aid, w')"
  obtains h sv where
    "aid = uuid_stream w (uuid_count w)"
    "map_of (files w') (history_file self)
       = Some (FileNode (Records (h @ [history_entry result video_name additional_info aid
                (clock_stream w (clock_count w)) (path_join (history_folder self) aid) sv])))"
    "\<not> lies_under (path_join (history_folder self) aid) (history_file self)
       \<longrightarrow> h = stored_records self w"
proof -
  let ?F = "path_join (history_folder self) aid"
  from assms obtain fs1 sv fs2 h w2 where
    st: "aid = uuid_stream w (uuid_count w)"
        "mkdir (files w) ?F = Inr fs1"
        "save_artifacts fs1 result ?F = Inr (sv, fs2)"
        "load_history self (w\<lparr>files := fs2, uuid_count := Suc (uuid_count w),
                              clock_count := Suc (clock_count w)\<rparr>) = Inr (h, w2)"
        "map_of (files w') (history_file self)
           = Some (FileNode (Records (h @ [history_entry result video_name additional_info aid
                    (clock_stream w (clock_count w)) ?F sv])))"
    by (rule save_analysis_stages)
  let ?w1 = "w\<lparr>files := fs2, uuid_count := Suc (uuid_count w),
                clock_count := Suc (clock_count w)\<rparr>"
  have h: "h = stored_records self ?w1" by (rule load_history_Inr(1) [OF st(4)])
  have "h = stored_records self w"
    if out: "\<not> lies_under ?F (history_file self)"
  proof (cases "history_file self = ?F")
    case True
    have "is_dir fs1 ?F" using mkdir_map [OF st(2)] by (simp add: is_dir_def)
    then have "is_dir fs2 ?F" using save_artifacts_dirs [OF st(3)] by simp
    with True have "load_history self ?w1 = Inl IsADirectoryError"
      by (simp add: load_history_def is_dir_def)
    with st(4) show ?thesis by simp
  next
    case False
    with out have o: "\<not> at_or_under ?F (history_file self)" by (simp add: at_or_under_def)
    have "map_of fs2 (history_file self) = map_of fs1 (history_file self)"
      by (rule save_artifacts_outside [OF st(3) o])
    also have "\<dots> = map_of (files w) (history_file self)"
      using mkdir_map [OF st(2)] False by simp
    finally show ?thesis by (simp add: h stored_records_def)
  qed
  with st(1) st(5) that show ?thesis by blast
qed

lemma example_artifacts:
  "save_artifacts fs (example_result locs) folder = save_frames 0 fs folder (take 3 locs) []"
  by (simp add: save_artifacts_def example_result_def save_report_def truthy_path_def
        getattr_path_def split: sum.splits)

lemma example_save:
  assumes "loc_image l = None"
  shows "save_analysis example_manager example_world (example_result [l]) name None
         = Inr (''run-0'',
                example_world
                  \<lparr>files := [(''analysis_artifacts'', DirNode),
                             (''analysis_history.json'',
                              FileNode (Records [history_entry (example_result [l]) name None
                                ''run-0'' ''2025-06-01T10:00:00'' ''analysis_artifacts/run-0'' []])),
                             (''analysis_artifacts/run-0'', DirNode)],
                   uuid_count := 1, clock_count := 1,
                   settings := [\<lparr>sr_id = ''run-0'', sr_video_name = name,
                                  sr_timestamp = ''2025-06-01T10:00:00'',
                                  sr_fps_awal = None, sr_fps_baru = None,
                                  sr_ssim_thresh = None, sr_z_thresh = None\<rparr>]\<rparr>)"
  using assms
  by (simp add: save_analysis_def example_manager_def example_world_def empty_world_def
        example_artifacts resolvable_def truthy_path_def path_join_def mkdir_def
        parent_error_def parent_def load_history_def open_write_def insert_settings_def
        sqlite_bindable_def info_get_def history_entry_def Let_def)


subsection \<open>Derived counts\<close>

lemma count_step_three:
  "count_step [(''duplication'', a), (''insertion'', b), (''discontinuity'', c)] loc =
   [(''duplication'', a + kind_count ''duplication'' [loc]),
    (''insertion'', b + kind_count ''insertion'' [loc]),
    (''discontinuity'', c + kind_count ''discontinuity'' [loc])]"
  by (simp add: count_step_def kind_count_def)

lemma kind_count_Cons: "kind_count k (loc # locs) = kind_count k [loc] + kind_count k locs"
  by (simp add: kind_count_def)

lemma count_fold:
  "foldl count_step [(''duplication'', a), (''insertion'', b), (''discontinuity'', c)] locs =
   [(''duplication'', a + kind_count ''duplication'' locs),
    (''insertion'', b + kind_count ''insertion'' locs),
    (''discontinuity'', c + kind_count ''discontinuity'' locs)]"
proof (induction locs arbitrary: a b c)
  case Nil
  then show ?case by (simp add: kind_count_def)
next
  case (Cons loc locs)
  show ?case
    unfolding foldl_Cons count_step_three Cons.IH
    by (simp add: kind_count_Cons [of _ loc locs])
qed

lemma count_anomaly_types_eq:
  "count_anomaly_types result =
   [(''duplication'', kind_count ''duplication'' (localizations result)),
    (''insertion'', kind_count ''insertion'' (localizations result)),
    (''discontinuity'', kind_count ''discontinuity'' (localizations result))]"
  by (simp add: count_anomaly_types_def count_fold)

text \<open>
  C6, as the specification words it, fails: the source calls \<^verbatim>\<open>replace('anomaly_', '')\<close>,
  which drops the text wherever it stands and not only in front. An event tagged
  \<^verbatim>\<open>duplicationanomaly_\<close> has no such prefix, and the saved record counts it as a
  duplication all the same.
\<close>

theorem count_prefix_counterexample:
  "map_option e_anomaly_types
     (saved_entry example_manager
        (save_analysis example_manager example_world
           (example_result [event_only ''duplicationanomaly_'']) ''clip.mp4'' None))
     = Some [(''duplication'', 1), (''insertion'', 0), (''discontinuity'', 0)]
   \<and> spec_kind_count ''duplication'' [event_only ''duplicationanomaly_''] = 0"
proof -
  have "count_anomaly_types (example_result [event_only ''duplicationanomaly_''])
          = [(''duplication'', 1), (''insertion'', 0), (''discontinuity'', 0)]"
    by (simp add: count_anomaly_types_eq kind_count_def event_type_def event_only_def
          example_result_def)
  moreover have "spec_kind_count ''duplication'' [event_only ''duplicationanomaly_''] = 0"
    by (simp add: spec_kind_count_def strip_prefix_def event_only_def)
  moreover have "loc_image (event_only ''duplicationanomaly_'') = None"
    by (simp add: event_only_def)
  ultimately show ?thesis
    by (simp add: example_save saved_entry_def stored_records_def)
       (simp add: example_manager_def example_world_def)
qed

text \<open>
  C6, amended: the record that \<open>save_analysis\<close> appends to the collection maps each of
  duplication, insertion and discontinuity, and no other kind, to the number of
  localization events whose tag equals the kind once every occurrence of \<open>anomaly_\<close> is
  dropped from it; its \<open>localizations_count\<close> is the length of the localizations. The
  records in front of it are the ones stored before, the history file not lying in the
  new record's folder.
\<close>

theorem saved_anomaly_counts:
  assumes "save_analysis self w result video_name additional_info = Inr (aid, w')"
  shows "\<exists>es e. stored_records self w' = es @ [e]
            \<and> (\<not> lies_under (path_join (history_folder self) aid) (history_file self)
                 \<longrightarrow> es = stored_records self w)
            \<and> e_anomaly_types e =
                [(''duplication'', kind_count ''duplication'' (localizations result)),
                 (''insertion'', kind_count ''insertion'' (localizations result)),
                 (''discontinuity'', kind_count ''discontinuity'' (localizations result))]
            \<and> e_localizations_count e = length (localizations result)"
proof -
  from assms obtain h sv where
    "aid = uuid_stream w (uuid_count w)" and
    s: "map_of (files w') (history_file self)
          = Some (FileNode (Records (h @ [history_entry result video_name additional_info aid
                   (clock_stream w (clock_count w)) (path_join (history_folder self) aid) sv])))"
       "\<not> lies_under (path_join (history_folder self) aid) (history_file self)
          \<longrightarrow> h = stored_records self w"
    by (rule save_analysis_appends)
  from stored_records_Records [OF s(1)] s(2) show ?thesis
    by (auto simp: count_anomaly_types_eq)
qed

text \<open>
  The example of the specification: one localization tagged \<^verbatim>\<open>anomaly_duplication\<close> gives
  the counts 1, 0, 0 and \<open>localizations_count = 1\<close>.
\<close>

theorem saved_anomaly_counts_witness:
  "\<exists>w' e. save_analysis example_manager example_world
             (example_result [example_localization]) ''clip.mp4'' None = Inr (''run-0'', w')
         \<and> \<not> lies_under (path_join (history_folder example_manager) ''run-0'')
               (history_file example_manager)
         \<and> stored_records example_manager w' = stored_records example_manager example_world @ [e]
         \<and> e_anomaly_types e = [(''duplication'', 1), (''insertion'', 0), (''discontinuity'', 0)]
         \<and> e_localizations_count e = 1"
proof -
  obtain w' where s: "save_analysis example_manager example_world
        (example_result [example_localization]) ''clip.mp4'' None = Inr (''run-0'', w')"
    by (simp add: example_save example_localization_def)
  have k: "kind_count ''duplication'' (localizations (example_result [example_localization])) = 1"
          "kind_count ''insertion'' (localizations (example_result [example_localization])) = 0"
          "kind_count ''discontinuity'' (localizations (example_result [example_localization])) = 0"
          "length (localizations (example_result [example_localization])) = 1"
    by (simp_all add: kind_count_def event_type_def example_localization_def example_result_def)
  have l: "\<not> lies_under (path_join (history_folder example_manager) ''run-0'')
               (history_file example_manager)"
    by (simp add: lies_under_def example_manager_def path_join_def)
  from saved_anomaly_counts [OF s] l show ?thesis
    unfolding k using s by blast
qed

subsection \<open>Saving and reading back\<close>




subsection \<open>Self-healing load\<close>

lemma save_analysis_succeeds:
  assumes "mkdir (files w) (path_join (history_folder self) (uuid_stream w (uuid_count w)))
             = Inr fs1"
      and "save_artifacts fs1 result
             (path_join (history_folder self) (uuid_stream w (uuid_count w))) = Inr (sv, fs2)"
      and "map_of fs2 (history_file self) = Some (FileNode (Records es))"
  shows "\<exists>w'. save_analysis self w result video_name additional_info
               = Inr (uuid_stream w (uuid_count w), w')
            \<and> stored_records self w'
                = es @ [history_entry result video_name additional_info
                          (uuid_stream w (uuid_count w)) (clock_stream w (clock_count w))
                          (path_join (history_folder self) (uuid_stream w (uuid_count w))) sv]"
  using assms
  by (simp add: save_analysis_def Let_def load_history_def open_write_def stored_records_def
        AList.update_conv')

text \<open>
  C4, as stated, fails: the handler of \<open>load_history\<close> names \<^verbatim>\<open>JSONDecodeError\<close> and
  \<^verbatim>\<open>FileNotFoundError\<close>. A history file of bytes that are no text in the encoding of the
  platform cannot be parsed either, and reading it raises \<^verbatim>\<open>UnicodeDecodeError\<close>, which
  the handler lets through: nothing is reset and no sequence is returned.
\<close>

theorem load_history_counterexample:
  "map_of (files garbled_world) (history_file example_manager)
     = Some (FileNode (NotText [CHR 0xFF, CHR 0xFE, CHR 0x00]))
   \<and> load_history example_manager garbled_world = Inl UnicodeDecodeError"
  by (simp add: load_history_def garbled_world_def example_manager_def)

text \<open>
  C4, amended. When the history file is absent from a directory that exists, or holds
  text that is no JSON, \<open>load_history\<close> returns the empty list without raising and
  leaves the file holding the empty collection, every other path as it was; a second
  call returns the empty list and writes nothing. A \<open>save_analysis\<close> that follows, whose
  artifact folder can be made and filled and does not hold the history file, returns
  its id and leaves the collection holding the new record alone. When the history file
  holds bytes that are no text, or is a directory, or is absent with no directory to lie
  in, \<open>load_history\<close> raises.
\<close>

theorem load_history_self_heals:
  "(map_of (files w) (history_file self) = None \<and> parent_error (files w) (history_file self) = None
    \<or> (\<exists>t. map_of (files w) (history_file self) = Some (FileNode (NotJson t)))
    \<longrightarrow> (\<exists>w1. load_history self w = Inr ([], w1)
           \<and> w1 = w\<lparr>files := AList.update (history_file self) (FileNode (Records [])) (files w)\<rparr>
           \<and> map_of (files w1) (history_file self) = Some (FileNode (Records []))
           \<and> (\<forall>p. p \<noteq> history_file self \<longrightarrow> map_of (files w1) p = map_of (files w) p)
           \<and> load_history self w1 = Inr ([], w1)
           \<and> (\<forall>fs1 sv fs2.
                mkdir (files w1) (path_join (history_folder self) (uuid_stream w (uuid_count w)))
                  = Inr fs1
                \<and> save_artifacts fs1 result
                    (path_join (history_folder self) (uuid_stream w (uuid_count w)))
                    = Inr (sv, fs2)
                \<and> \<not> lies_under (path_join (history_folder self) (uuid_stream w (uuid_count w)))
                      (history_file self)
                \<longrightarrow> (\<exists>w' e. save_analysis self w1 result video_name additional_info
                               = Inr (uuid_stream w (uuid_count w), w')
                            \<and> stored_records self w' = [e]
                            \<and> e_id e = uuid_stream w (uuid_count w)
                            \<and> e_video_name e = video_name
                            \<and> e_localizations e = localizations result))))
   \<and> ((\<exists>b. map_of (files w) (history_file self) = Some (FileNode (NotText b)))
        \<longrightarrow> load_history self w = Inl UnicodeDecodeError)
   \<and> (is_dir (files w) (history_file self)
        \<longrightarrow> load_history self w = Inl IsADirectoryError)
   \<and> (map_of (files w) (history_file self) = None
      \<and> parent_error (files w) (history_file self) \<noteq> None
        \<longrightarrow> (\<exists>e. load_history self w = Inl e))"
proof -
  let ?hf = "history_file self"
  let ?F = "path_join (history_folder self) (uuid_stream w (uuid_count w))"
  let ?w1 = "w\<lparr>files := AList.update ?hf (FileNode (Records [])) (files w)\<rparr>"
  have heal: "\<exists>w1. load_history self w = Inr ([], w1)
           \<and> w1 = ?w1
           \<and> map_of (files w1) ?hf = Some (FileNode (Records []))
           \<and> (\<forall>p. p \<noteq> ?hf \<longrightarrow> map_of (files w1) p = map_of (files w) p)
           \<and> load_history self w1 = Inr ([], w1)
           \<and> (\<forall>fs1 sv fs2.
                mkdir (files w1) ?F = Inr fs1 \<and> save_artifacts fs1 result ?F = Inr (sv, fs2)
                \<and> \<not> lies_under ?F ?hf
                \<longrightarrow> (\<exists>w' e. save_analysis self w1 result video_name additional_info
                               = Inr (uuid_stream w (uuid_count w), w')
                            \<and> stored_records self w' = [e]
                            \<and> e_id e = uuid_stream w (uuid_count w)
                            \<and> e_video_name e = video_name
                            \<and> e_localizations e = localizations result))"
    if c: "map_of (files w) ?hf = None \<and> parent_error (files w) ?hf = None
           \<or> (\<exists>t. map_of (files w) ?hf = Some (FileNode (NotJson t)))"
  proof -
    from c have l: "load_history self w = Inr ([], ?w1)"
      by (auto simp: load_history_def reset_history_def open_write_def)
    have m: "map_of (files ?w1) ?hf = Some (FileNode (Records []))"
      by (simp add: AList.update_conv')
    have o: "\<forall>p. p \<noteq> ?hf \<longrightarrow> map_of (files ?w1) p = map_of (files w) p"
      by (simp add: AList.update_conv')
    have a: "load_history self ?w1 = Inr ([], ?w1)"
      by (rule load_history_Records [OF m])
    have s: "\<exists>w' e. save_analysis self ?w1 result video_name additional_info
                               = Inr (uuid_stream w (uuid_count w), w')
                            \<and> stored_records self w' = [e]
                            \<and> e_id e = uuid_stream w (uuid_count w)
                            \<and> e_video_name e = video_name
                            \<and> e_localizations e = localizations result"
      if mk: "mkdir (files ?w1) ?F = Inr fs1" and sa: "save_artifacts fs1 result ?F = Inr (sv, fs2)"
         and out: "\<not> lies_under ?F ?hf" for fs1 sv fs2
    proof -
      have "?hf \<noteq> ?F"
        using mk m by (auto simp: mkdir_def split: option.splits fnode.splits)
      with out have "\<not> at_or_under ?F ?hf" by (simp add: at_or_under_def)
      from save_artifacts_outside [OF sa this] mkdir_map [OF mk] \<open>?hf \<noteq> ?F\<close> m
      have k: "map_of fs2 ?hf = Some (FileNode (Records []))" by simp
      from save_analysis_succeeds [of ?w1 self fs1 result sv fs2 "[]" video_name additional_info]
        mk sa k
      show ?thesis by auto
    qed
    from l m o a s show ?thesis by blast
  qed
  have garbled: "load_history self w = Inl UnicodeDecodeError"
    if "\<exists>b. map_of (files w) ?hf = Some (FileNode (NotText b))"
    using that by (auto simp: load_history_def)
  have dir: "load_history self w = Inl IsADirectoryError" if "is_dir (files w) ?hf"
    using that by (simp add: load_history_def is_dir_def)
  have lost: "\<exists>e. load_history self w = Inl e"
    if "map_of (files w) ?hf = None \<and> parent_error (files w) ?hf \<noteq> None"
    using that by (auto simp: load_history_def reset_history_def open_write_def)
  from heal garbled dir lost show ?thesis by blast
qed

theorem load_history_self_heals_witness:
  "(\<exists>t. map_of (files corrupt_world) (history_file example_manager) = Some (FileNode (NotJson t)))
   \<and> load_history example_manager corrupt_world = Inr ([], example_world)
   \<and> load_history example_manager example_world = Inr ([], example_world)
   \<and> mkdir (files example_world) (path_join (history_folder example_manager) ''run-0'')
       = Inr (files example_world @ [(''analysis_artifacts/run-0'', DirNode)])
   \<and> save_artifacts (files example_world @ [(''analysis_artifacts/run-0'', DirNode)])
        (example_result [example_localization])
        (path_join (history_folder example_manager) ''run-0'')
       = Inr ([], files example_world @ [(''analysis_artifacts/run-0'', DirNode)])
   \<and> \<not> lies_under (path_join (history_folder example_manager) ''run-0'')
         (history_file example_manager)
   \<and> (\<exists>w' e. save_analysis example_manager example_world
                 (example_result [example_localization]) ''clip.mp4'' None
               = Inr (''run-0'', w')
            \<and> stored_records example_manager w' = [e]
            \<and> e_id e = ''run-0''
            \<and> e_video_name e = ''clip.mp4''
            \<and> e_localizations e = [example_localization])
   \<and> (\<exists>b. map_of (files garbled_world) (history_file example_manager)
             = Some (FileNode (NotText b)))
   \<and> load_history example_manager garbled_world = Inl UnicodeDecodeError
   \<and> is_dir (files example_world) (history_file (example_manager\<lparr>history_file := ''analysis_artifacts''\<rparr>))
   \<and> load_history (example_manager\<lparr>history_file := ''analysis_artifacts''\<rparr>) example_world
       = Inl IsADirectoryError
   \<and> map_of (files empty_world) (history_file nested_manager) = None
   \<and> parent_error (files empty_world) (history_file nested_manager) \<noteq> None
   \<and> (\<exists>e. load_history nested_manager empty_world = Inl e)"
proof -
  let ?fs1 = "files example_world @ [(''analysis_artifacts/run-0'', DirNode)]"
  have c: "\<exists>t. map_of (files corrupt_world) (history_file example_manager)
             = Some (FileNode (NotJson t))"
    by (simp add: corrupt_world_def example_manager_def)
  have w: "corrupt_world\<lparr>files := AList.update (history_file example_manager)
                                    (FileNode (Records [])) (files corrupt_world)\<rparr>
           = example_world"
    by (simp add: corrupt_world_def example_world_def example_manager_def)
  have u: "uuid_stream corrupt_world (uuid_count corrupt_world) = ''run-0''"
    by (simp add: corrupt_world_def empty_world_def)
  have mk: "mkdir (files example_world) (path_join (history_folder example_manager) ''run-0'')
              = Inr ?fs1"
    by (simp add: example_world_def example_manager_def path_join_def mkdir_def
          parent_error_def parent_def)
  have sa: "save_artifacts ?fs1 (example_result [example_localization])
              (path_join (history_folder example_manager) ''run-0'') = Inr ([], ?fs1)"
    by (simp add: example_artifacts example_localization_def resolvable_def truthy_path_def)
  have out: "\<not> lies_under (path_join (history_folder example_manager) ''run-0'')
                (history_file example_manager)"
    by (simp add: lies_under_def example_manager_def path_join_def)
  have r: "localizations (example_result [example_localization]) = [example_localization]"
    by (simp add: example_result_def)
  have g: "\<exists>b. map_of (files garbled_world) (history_file example_manager)
             = Some (FileNode (NotText b))"
    by (simp add: garbled_world_def example_manager_def)
  note heal = load_history_self_heals [of corrupt_world example_manager
                "example_result [example_localization]" "''clip.mp4''" None,
                unfolded w u r]
  note fail = load_history_self_heals [of garbled_world example_manager]
  from heal c have a1: "load_history example_manager corrupt_world = Inr ([], example_world)"
    by blast
  from heal c have a2: "load_history example_manager example_world = Inr ([], example_world)"
    by blast
  from heal c mk sa out have a3:
    "\<exists>w' e. save_analysis example_manager example_world
                 (example_result [example_localization]) ''clip.mp4'' None
               = Inr (''run-0'', w')
            \<and> stored_records example_manager w' = [e]
            \<and> e_id e = ''run-0''
            \<and> e_video_name e = ''clip.mp4''
            \<and> e_localizations e = [example_localization]"
    by blast
  from fail g have a4: "load_history example_manager garbled_world = Inl UnicodeDecodeError"
    by blast
  have d: "is_dir (files example_world)
             (history_file (example_manager\<lparr>history_file := ''analysis_artifacts''\<rparr>))"
    by (simp add: is_dir_def example_world_def example_manager_def)
  from load_history_self_heals
         [of example_world "example_manager\<lparr>history_file := ''analysis_artifacts''\<rparr>"] d
  have a5: "load_history (example_manager\<lparr>history_file := ''analysis_artifacts''\<rparr>)
              example_world = Inl IsADirectoryError"
    by blast
  have n: "map_of (files empty_world) (history_file nested_manager) = None"
          "parent_error (files empty_world) (history_file nested_manager) \<noteq> None"
    by (simp_all add: empty_world_def nested_manager_def parent_error_def parent_def)
  from load_history_self_heals [of empty_world nested_manager] n
  have a6: "\<exists>e. load_history nested_manager empty_world = Inl e"
    by blast
  from c a1 a2 mk sa out a3 g a4 d a5 n a6 show ?thesis by blast
qed


subsection \<open>Removing directory trees\<close>

lemma map_of_filter_key:
  "map_of (filter (\<lambda>(q, n). P q) fs) k = (if P k then map_of fs k else None)"
  by (induction fs) auto

lemma rmtree_map:
  "rmtree bl fs d = Inr fs'
   \<Longrightarrow> map_of fs' p = (if at_or_under d p then None else map_of fs p)"
  by (auto simp: rmtree_def map_of_filter_key at_or_under_def
           split: option.splits fnode.splits if_splits)

lemma rmtree_dir:
  "is_dir fs d \<Longrightarrow>
   rmtree bl fs d =
     (if removable bl fs d
      then Inr (filter (\<lambda>(q, n). q \<noteq> d \<and> \<not> lies_under d q) fs) else Inl PermissionError)"
  by (simp add: rmtree_def is_dir_def)

lemma is_dir_exists: "is_dir fs p \<Longrightarrow> path_exists fs p"
  by (simp add: is_dir_def path_exists_def)

lemma stored_world_fields [simp]:
  "stored_records example_manager stored_world = [example_entry]"
  "stored_records example_manager locked_world = [example_entry]"
  "files locked_world = files stored_world"
  "blocked stored_world = []"
  "blocked locked_world = [''analysis_artifacts/run-0/kmeans.png'']"
  by (simp_all add: stored_world_def locked_world_def stored_records_def example_manager_def
        empty_world_def)

lemma example_entry_fields [simp]:
  "e_id example_entry = ''run-0''"
  "e_artifacts_folder example_entry = ''analysis_artifacts/run-0''"
  by (simp_all add: example_entry_def)

subsection \<open>Deleting a stored record\<close>

lemma delete_analysis_found:
  assumes "find (\<lambda>entry. e_id entry = aid) (stored_records self w) = Some e"
  shows "delete_analysis self w aid =
     (case (if is_dir (files w) (e_artifacts_folder e)
            then rmtree (blocked w) (files w) (e_artifacts_folder e)
            else Inr (files w)) of
        Inl err \<Rightarrow> Inl err
      | Inr fs1 \<Rightarrow>
          (case open_write fs1 (history_file self)
                  (Records (filter (\<lambda>entry. e_id entry \<noteq> aid) (stored_records self w))) of
             Inl err \<Rightarrow> Inl err
           | Inr fs2 \<Rightarrow> Inr (True, w\<lparr>files := fs2\<rparr>)))"
proof -
  from assms have m: "map_of (files w) (history_file self)
                        = Some (FileNode (Records (stored_records self w)))"
    by (rule find_stored_Records)
  show ?thesis
    using assms
    by (auto simp: delete_analysis_def load_history_Records [OF m] get_analysis_Records [OF m]
          Let_def is_dir_exists split: sum.splits)
qed

lemma delete_analysis_succeeds:
  assumes "find (\<lambda>entry. e_id entry = aid) (stored_records self w) = Some e"
      and "\<not> is_dir (files w) (e_artifacts_folder e)
           \<or> removable (blocked w) (files w) (e_artifacts_folder e)
             \<and> \<not> lies_under (e_artifacts_folder e) (history_file self)"
  shows "\<exists>w'. delete_analysis self w aid = Inr (True, w')
           \<and> stored_records self w' = filter (\<lambda>entry. e_id entry \<noteq> aid) (stored_records self w)"
proof -
  let ?F = "e_artifacts_folder e"
  let ?hf = "history_file self"
  let ?new = "Records (filter (\<lambda>entry. e_id entry \<noteq> aid) (stored_records self w))"
  from assms(1) have m: "map_of (files w) ?hf = Some (FileNode (Records (stored_records self w)))"
    by (rule find_stored_Records)
  obtain fs1 where
    r: "(if is_dir (files w) ?F then rmtree (blocked w) (files w) ?F else Inr (files w)) = Inr fs1"
    and k: "map_of fs1 ?hf = map_of (files w) ?hf"
  proof (cases "is_dir (files w) ?F")
    case True
    with assms(2) have rem: "removable (blocked w) (files w) ?F" and out: "\<not> lies_under ?F ?hf"
      by simp_all
    from True m have "?hf \<noteq> ?F" by (auto simp: is_dir_def)
    with out have o: "\<not> at_or_under ?F ?hf" by (simp add: at_or_under_def)
    let ?fs1 = "filter (\<lambda>(q, n). q \<noteq> ?F \<and> \<not> lies_under ?F q) (files w)"
    have "rmtree (blocked w) (files w) ?F = Inr ?fs1"
      using True rem by (simp add: rmtree_dir)
    moreover from rmtree_map [OF this, of ?hf] o have "map_of ?fs1 ?hf = map_of (files w) ?hf"
      by simp
    ultimately show ?thesis using True that by simp
  next
    case False
    then show ?thesis using that by simp
  qed
  from k m have "open_write fs1 ?hf ?new = Inr (AList.update ?hf (FileNode ?new) fs1)"
    by (simp add: open_write_existing)
  with r show ?thesis
    by (simp add: delete_analysis_found [OF assms(1)] stored_records_def AList.update_conv')
qed

text \<open>
  C3, as stated, fails: \<^verbatim>\<open>shutil.rmtree\<close> is called outside any \<^verbatim>\<open>try\<close>, before the history
  file is rewritten. When a file of the record's artifact directory cannot be removed,
  \<open>delete_analysis\<close> raises and returns no boolean.
\<close>

theorem delete_blocked_counterexample:
  "find (\<lambda>entry. e_id entry = ''run-0'') (stored_records example_manager locked_world)
     = Some example_entry
   \<and> delete_analysis example_manager locked_world ''run-0'' = Inl PermissionError"
proof -
  have f: "find (\<lambda>entry. e_id entry = ''run-0'') (stored_records example_manager locked_world)
             = Some example_entry"
    by simp
  show ?thesis
    by (simp add: delete_analysis_found [OF f] f)
       (simp add: stored_world_def rmtree_def is_dir_def path_exists_def removable_def
          lies_under_def)
qed

text \<open>
  C3, amended: for an id whose record exists, \<open>delete_analysis\<close> returns \<^verbatim>\<open>True\<close> and
  leaves the collection without any record of that id whenever the record's artifact
  folder is not a directory, or its tree can be removed and does not hold the history
  file; when the tree cannot be removed, the error of \<^verbatim>\<open>shutil.rmtree\<close> reaches the caller
  in place of a boolean.
\<close>

theorem delete_existing_id:
  assumes "find (\<lambda>entry. e_id entry = aid) (stored_records self w) = Some e"
  shows "(is_dir (files w) (e_artifacts_folder e)
            \<and> \<not> removable (blocked w) (files w) (e_artifacts_folder e)
          \<longrightarrow> delete_analysis self w aid = Inl PermissionError)
       \<and> (\<not> is_dir (files w) (e_artifacts_folder e)
            \<or> removable (blocked w) (files w) (e_artifacts_folder e)
              \<and> \<not> lies_under (e_artifacts_folder e) (history_file self)
          \<longrightarrow> (\<exists>w'. delete_analysis self w aid = Inr (True, w')
                   \<and> stored_records self w'
                       = filter (\<lambda>entry. e_id entry \<noteq> aid) (stored_records self w)
                   \<and> aid \<notin> set (map e_id (stored_records self w'))))"
proof -
  have "delete_analysis self w aid = Inl PermissionError"
    if "is_dir (files w) (e_artifacts_folder e)"
       "\<not> removable (blocked w) (files w) (e_artifacts_folder e)"
    using that by (simp add: delete_analysis_found [OF assms] rmtree_dir)
  moreover have "\<exists>w'. delete_analysis self w aid = Inr (True, w')
                   \<and> stored_records self w'
                       = filter (\<lambda>entry. e_id entry \<noteq> aid) (stored_records self w)
                   \<and> aid \<notin> set (map e_id (stored_records self w'))"
    if "\<not> is_dir (files w) (e_artifacts_folder e)
            \<or> removable (blocked w) (files w) (e_artifacts_folder e)
              \<and> \<not> lies_under (e_artifacts_folder e) (history_file self)"
    using delete_analysis_succeeds [OF assms that] by auto
  ultimately show ?thesis by blast
qed

theorem delete_existing_id_witness:
  "find (\<lambda>entry. e_id entry = ''run-0'') (stored_records example_manager stored_world)
     = Some example_entry
   \<and> removable (blocked stored_world) (files stored_world) (e_artifacts_folder example_entry)
   \<and> \<not> lies_under (e_artifacts_folder example_entry) (history_file example_manager)
   \<and> (\<exists>w'. delete_analysis example_manager stored_world ''run-0'' = Inr (True, w')
          \<and> stored_records example_manager w' = []
          \<and> ''run-0'' \<notin> set (map e_id (stored_records example_manager w')))
   \<and> find (\<lambda>entry. e_id entry = ''run-0'') (stored_records example_manager locked_world)
       = Some example_entry
   \<and> is_dir (files locked_world) (e_artifacts_folder example_entry)
   \<and> \<not> removable (blocked locked_world) (files locked_world) (e_artifacts_folder example_entry)
   \<and> delete_analysis example_manager locked_world ''run-0'' = Inl PermissionError"
proof -
  have f: "find (\<lambda>entry. e_id entry = ''run-0'') (stored_records example_manager stored_world)
             = Some example_entry"
          "find (\<lambda>entry. e_id entry = ''run-0'') (stored_records example_manager locked_world)
             = Some example_entry"
    by simp_all
  have r: "removable (blocked stored_world) (files stored_world) (e_artifacts_folder example_entry)"
          "\<not> lies_under (e_artifacts_folder example_entry) (history_file example_manager)"
          "is_dir (files locked_world) (e_artifacts_folder example_entry)"
          "\<not> removable (blocked locked_world) (files locked_world) (e_artifacts_folder example_entry)"
    by (simp_all add: removable_def is_dir_def path_exists_def lies_under_def stored_world_def
          example_manager_def empty_world_def)
  from delete_existing_id [OF f(1)] delete_existing_id [OF f(2)]
  show ?thesis using f r by simp
qed

subsection \<open>Deleting an id that is not stored\<close>

lemma reset_history_eq:
  "reset_history self w =
     (if is_dir (files w) (history_file self) then Inl IsADirectoryError
      else if path_exists (files w) (history_file self)
      then Inr ([], w\<lparr>files := AList.update (history_file self) (FileNode (Records [])) (files w)\<rparr>)
      else (case parent_error (files w) (history_file self) of
              Some e \<Rightarrow> Inl e
            | None \<Rightarrow>
                Inr ([], w\<lparr>files := AList.update (history_file self) (FileNode (Records []))
                                       (files w)\<rparr>)))"
  by (auto simp: reset_history_def open_write_def is_dir_def path_exists_def
           split: option.splits fnode.splits)

text \<open>
  C8, as stated, fails where the history file holds no JSON: no id has a record then,
  \<open>delete_analysis\<close> returns \<^verbatim>\<open>False\<close>, and the \<open>load_history\<close> it starts with has written
  the empty collection over the file.
\<close>

theorem delete_missing_id_counterexample:
  "''run-7'' \<notin> set (map e_id (stored_records example_manager corrupt_world))
   \<and> delete_analysis example_manager corrupt_world ''run-7'' = Inr (False, example_world)
   \<and> map_of (files corrupt_world) (history_file example_manager)
       = Some (FileNode (NotJson ''[{''))
   \<and> map_of (files example_world) (history_file example_manager)
       = Some (FileNode (Records []))"
  by (simp add: corrupt_world_def delete_analysis_def load_history_def get_analysis_def
        reset_history_def open_write_def stored_records_def example_world_def
        example_manager_def)

text \<open>
  C8, amended: for an id with no record in the store, what \<open>delete_analysis\<close> does
  depends on the history file alone. When it holds a readable collection, the call
  returns \<^verbatim>\<open>False\<close> and nothing is written. When it holds text that is no JSON, or is
  absent from a directory that exists, the call returns \<^verbatim>\<open>False\<close> and the history file
  is left holding the empty collection, every other path as it was. When it holds bytes
  that are no text, is a directory, or is absent with no directory to lie in, the call
  raises (\<^verbatim>\<open>UnicodeDecodeError\<close>, \<^verbatim>\<open>IsADirectoryError\<close>, the error of \<^verbatim>\<open>open\<close>) and nothing
  is written.
\<close>

theorem delete_missing_id:
  assumes "aid \<notin> set (map e_id (stored_records self w))"
  shows "delete_analysis self w aid =
           (case map_of (files w) (history_file self) of
              Some (FileNode (Records es)) \<Rightarrow> Inr (False, w)
            | Some (FileNode (NotJson t)) \<Rightarrow>
                Inr (False, w\<lparr>files := AList.update (history_file self) (FileNode (Records []))
                                         (files w)\<rparr>)
            | Some (FileNode (NotText b)) \<Rightarrow> Inl UnicodeDecodeError
            | Some DirNode \<Rightarrow> Inl IsADirectoryError
            | None \<Rightarrow>
                (case parent_error (files w) (history_file self) of
                   Some e \<Rightarrow> Inl e
                 | None \<Rightarrow>
                     Inr (False, w\<lparr>files := AList.update (history_file self)
                                              (FileNode (Records [])) (files w)\<rparr>)))"
proof (cases "load_history self w")
  case (Inl e)
  then have "delete_analysis self w aid = Inl e" by (simp add: delete_analysis_def)
  with Inl show ?thesis
    by (auto simp: load_history_def reset_history_eq is_dir_def path_exists_def
             split: option.splits fnode.splits fdata.splits if_splits)
next
  case (Inr r)
  then obtain h w1 where l: "load_history self w = Inr (h, w1)" by (cases r) auto
  have h: "h = stored_records self w" by (rule load_history_Inr(1) [OF l])
  have "find (\<lambda>entry. e_id entry = aid) h = None"
    using assms unfolding h by (auto simp: find_None_iff)
  then have "delete_analysis self w aid = Inr (False, w1)"
    using l load_history_again [OF l] by (simp add: delete_analysis_def get_analysis_def)
  with l show ?thesis
    by (auto simp: load_history_def reset_history_eq is_dir_def path_exists_def
             split: option.splits fnode.splits fdata.splits if_splits)
qed

theorem delete_missing_id_witness:
  "''run-7'' \<notin> set (map e_id (stored_records example_manager example_world))
   \<and> delete_analysis example_manager example_world ''run-7'' = Inr (False, example_world)
   \<and> ''run-7'' \<notin> set (map e_id (stored_records example_manager garbled_world))
   \<and> delete_analysis example_manager garbled_world ''run-7'' = Inl UnicodeDecodeError"
proof -
  have a: "''run-7'' \<notin> set (map e_id (stored_records example_manager example_world))"
          "''run-7'' \<notin> set (map e_id (stored_records example_manager garbled_world))"
    by (simp_all add: stored_records_def example_world_def garbled_world_def example_manager_def)
  have m: "map_of (files example_world) (history_file example_manager)
             = Some (FileNode (Records []))"
          "map_of (files garbled_world) (history_file example_manager)
             = Some (FileNode (NotText [CHR 0xFF, CHR 0xFE, CHR 0x00]))"
    by (simp_all add: example_world_def garbled_world_def example_manager_def)
  from delete_missing_id [OF a(1)] delete_missing_id [OF a(2)] a show ?thesis
    unfolding m by simp
qed

subsection \<open>Deleting everything\<close>

lemma parent_shorter: "parent p = Some d \<Longrightarrow> length d < length p"
proof -
  assume a: "parent p = Some d"
  then have s: "CHR ''/'' \<in> set p" and d: "d = rev (tl (dropWhile (\<lambda>c. c \<noteq> CHR ''/'') (rev p)))"
    by (auto simp: parent_def split: if_splits)
  have "dropWhile (\<lambda>c. c \<noteq> CHR ''/'') (rev p) \<noteq> []"
    using s by (simp add: dropWhile_eq_Nil_conv)
  then have "length (tl (dropWhile (\<lambda>c. c \<noteq> CHR ''/'') (rev p)))
               < length (dropWhile (\<lambda>c. c \<noteq> CHR ''/'') (rev p))"
    by (cases "dropWhile (\<lambda>c. c \<noteq> CHR ''/'') (rev p)") auto
  also have "\<dots> \<le> length (rev p)" by (rule length_dropWhile_le)
  finally show ?thesis using d by simp
qed

lemma parent_error_after_rmtree:
  assumes "parent_error fs p = None"
  shows "parent_error (filter (\<lambda>(q, n). q \<noteq> p \<and> \<not> lies_under p q) fs) p = None"
proof (cases "parent p")
  case None
  then show ?thesis by (simp add: parent_error_def)
next
  case (Some d)
  then have "length d < length p" by (rule parent_shorter)
  then have "d \<noteq> p" "\<not> lies_under p d" using lies_under_longer [of p d] by auto
  then show ?thesis
    using assms Some by (auto simp: parent_error_def map_of_filter_key split: if_splits)
qed

lemma entries_under_update_dir:
  "entries_under fs d = [] \<Longrightarrow> entries_under (AList.update d v fs) d = []"
  by (induction fs) (auto simp: entries_under_def lies_under_irrefl split: if_splits)

lemma entries_under_rmtree:
  "entries_under (filter (\<lambda>(q, n). q \<noteq> d \<and> \<not> lies_under d q) fs) d = []"
  by (induction fs) (auto simp: entries_under_def)

lemma entries_under_update_new:
  "map_of fs p = None \<Longrightarrow>
   entries_under (AList.update p v fs) d
     = entries_under fs d @ (if lies_under d p then [p] else [])"
  by (induction fs) (auto simp: entries_under_def split: if_splits)

lemma entries_under_update_old:
  "map_of fs p \<noteq> None \<Longrightarrow> entries_under (AList.update p v fs) d = entries_under fs d"
  by (induction fs) (auto simp: entries_under_def split: if_splits)

lemma entries_under_none:
  "entries_under fs d = [] \<Longrightarrow> lies_under d p \<Longrightarrow> map_of fs p = None"
proof -
  assume e: "entries_under fs d = []" and u: "lies_under d p"
  have "p \<notin> fst ` set fs"
  proof
    assume "p \<in> fst ` set fs"
    then obtain n where "(p, n) \<in> set fs" by auto
    with u have "(p, n) \<in> set (filter (\<lambda>(q, n). lies_under d q) fs)" by simp
    with e show False by (simp add: entries_under_def)
  qed
  then show ?thesis by (simp add: map_of_eq_None_iff)
qed

text \<open>The root as \<open>delete_all_history\<close> makes it anew: a directory that holds nothing.\<close>

lemma fresh_root:
  assumes "\<not> is_file fs d" and "removable bl fs d" and "parent_error fs d = None"
      and "path_exists fs d \<or> entries_under fs d = []"
  obtains fs1 fs2 where
    "(if path_exists fs d then rmtree bl fs d else Inr fs) = Inr fs1"
    "mkdir fs1 d = Inr fs2"
    "is_dir fs2 d" "entries_under fs2 d = []"
    "\<forall>p. \<not> at_or_under d p \<longrightarrow> map_of fs2 p = map_of fs p"
proof (cases "path_exists fs d")
  case True
  let ?fs1 = "filter (\<lambda>(q, n). q \<noteq> d \<and> \<not> lies_under d q) fs"
  from True assms(1) have dir: "is_dir fs d"
    by (auto simp: path_exists_def is_file_def is_dir_def split: option.splits fnode.splits)
  then have r: "rmtree bl fs d = Inr ?fs1"
    using assms(2) by (simp add: rmtree_dir)
  have n: "map_of ?fs1 d = None" using rmtree_map [OF r, of d] by simp
  then have m: "mkdir ?fs1 d = Inr (AList.update d DirNode ?fs1)"
    using parent_error_after_rmtree [OF assms(3)] by (simp add: mkdir_def)
  have "is_dir (AList.update d DirNode ?fs1) d"
    by (simp add: is_dir_def AList.update_conv')
  moreover have "entries_under (AList.update d DirNode ?fs1) d = []"
    by (rule entries_under_update_dir [OF entries_under_rmtree])
  moreover have "\<forall>p. \<not> at_or_under d p
                   \<longrightarrow> map_of (AList.update d DirNode ?fs1) p = map_of fs p"
    using rmtree_map [OF r] by (auto simp: AList.update_conv' at_or_under_def)
  ultimately show ?thesis using True r m that by simp
next
  case False
  then have n: "map_of fs d = None" by (simp add: path_exists_def)
  then have m: "mkdir fs d = Inr (AList.update d DirNode fs)"
    using assms(3) by (simp add: mkdir_def)
  from False assms(4) have e: "entries_under fs d = []" by simp
  have "is_dir (AList.update d DirNode fs) d"
    by (simp add: is_dir_def AList.update_conv')
  moreover have "entries_under (AList.update d DirNode fs) d = []"
    by (rule entries_under_update_dir [OF e])
  moreover have "\<forall>p. \<not> at_or_under d p
                   \<longrightarrow> map_of (AList.update d DirNode fs) p = map_of fs p"
    by (auto simp: AList.update_conv' at_or_under_def)
  ultimately show ?thesis using False m that by simp
qed

text \<open>
  C7, as stated, fails when the history file lies in the artifact root, a layout that the
  constructor accepts: the call ends by writing the history file, so the root it has
  made anew holds that file.
\<close>

theorem delete_all_history_counterexample:
  "delete_all_history nested_manager nested_world
     = Inr (1, nested_world
                 \<lparr>files := [(''analysis_artifacts'', DirNode),
                            (''analysis_artifacts/history.json'', FileNode (Records []))]\<rparr>)
   \<and> is_dir [(''analysis_artifacts'', DirNode),
              (''analysis_artifacts/history.json'', FileNode (Records []))]
         (history_folder nested_manager)
   \<and> entries_under [(''analysis_artifacts'', DirNode),
                     (''analysis_artifacts/history.json'', FileNode (Records []))]
         (history_folder nested_manager)
       = [''analysis_artifacts/history.json'']"
  by (simp add: delete_all_history_def load_history_def nested_manager_def nested_world_def
        empty_world_def path_exists_def rmtree_def removable_def mkdir_def parent_error_def
        parent_def open_write_def is_dir_def entries_under_def lies_under_def Let_def)

text \<open>
  C7, amended. Let the \<open>load_history\<close> that starts \<open>delete_all_history\<close> return, and let
  the file system it leaves allow the rest: the artifact root is a directory or absent,
  its tree can be removed, the directory it lies in exists, an absent root holds nothing,
  and the history file lies outside the root or directly in it. Then the call returns
  the number of records that the collection held, \<open>load_history\<close> returns the empty list
  afterwards, the root is a directory, and it holds nothing, except for the history file
  when that lies in it.
\<close>

theorem delete_all_history_clears:
  assumes "load_history self w = Inr (h, w1)"
      and "\<not> is_file (files w1) (history_folder self)"
      and "removable (blocked w1) (files w1) (history_folder self)"
      and "parent_error (files w1) (history_folder self) = None"
      and "path_exists (files w1) (history_folder self)
           \<or> entries_under (files w1) (history_folder self) = []"
      and "\<not> lies_under (history_folder self) (history_file self)
           \<or> parent (history_file self) = Some (history_folder self)"
  shows "\<exists>w'. delete_all_history self w = Inr (length (stored_records self w), w')
             \<and> load_history self w' = Inr ([], w')
             \<and> is_dir (files w') (history_folder self)
             \<and> entries_under (files w') (history_folder self)
                 = (if lies_under (history_folder self) (history_file self)
                    then [history_file self] else [])"
proof -
  let ?d = "history_folder self"
  let ?hf = "history_file self"
  from assms(2-5) obtain fs1 fs2 where
    r: "(if path_exists (files w1) ?d then rmtree (blocked w1) (files w1) ?d
         else Inr (files w1)) = Inr fs1"
    and m: "mkdir fs1 ?d = Inr fs2"
    and d: "is_dir fs2 ?d" and e: "entries_under fs2 ?d = []"
    and o: "\<forall>p. \<not> at_or_under ?d p \<longrightarrow> map_of fs2 p = map_of (files w1) p"
    by (rule fresh_root)
  have h: "h = stored_records self w" by (rule load_history_Inr(1) [OF assms(1)])
  have f: "map_of (files w1) ?hf = Some (FileNode (Records h))"
    by (rule load_history_Inr(2) [OF assms(1)])
  with assms(2) have ne: "?hf \<noteq> ?d" by (auto simp: is_file_def)
  let ?fs3 = "AList.update ?hf (FileNode (Records [])) fs2"
  have w: "open_write fs2 ?hf (Records []) = Inr ?fs3
           \<and> entries_under ?fs3 ?d = (if lies_under ?d ?hf then [?hf] else [])"
  proof (cases "lies_under ?d ?hf")
    case True
    with assms(6) have p: "parent ?hf = Some ?d" by simp
    from True e have n: "map_of fs2 ?hf = None" by (simp add: entries_under_none)
    from d p have "parent_error fs2 ?hf = None" by (simp add: parent_error_def is_dir_def)
    with n have "open_write fs2 ?hf (Records []) = Inr ?fs3" by (simp add: open_write_def)
    with True e n show ?thesis by (simp add: entries_under_update_new)
  next
    case False
    with ne have "\<not> at_or_under ?d ?hf" by (simp add: at_or_under_def)
    with o f have x: "map_of fs2 ?hf = Some (FileNode (Records h))" by simp
    then have "open_write fs2 ?hf (Records []) = Inr ?fs3" by (simp add: open_write_existing)
    with False e x show ?thesis by (simp add: entries_under_update_old)
  qed
  have dir: "is_dir ?fs3 ?d" using d ne by (simp add: is_dir_def AList.update_conv')
  have l: "load_history self (w1\<lparr>files := ?fs3\<rparr>) = Inr ([], w1\<lparr>files := ?fs3\<rparr>)"
    by (rule load_history_Records) (simp add: AList.update_conv')
  show ?thesis
    using assms(1) r m w dir l by (simp add: delete_all_history_def h)
qed

theorem delete_all_history_clears_witness:
  "load_history example_manager stored_world = Inr ([example_entry], stored_world)
   \<and> \<not> is_file (files stored_world) (history_folder example_manager)
   \<and> removable (blocked stored_world) (files stored_world) (history_folder example_manager)
   \<and> parent_error (files stored_world) (history_folder example_manager) = None
   \<and> path_exists (files stored_world) (history_folder example_manager)
   \<and> \<not> lies_under (history_folder example_manager) (history_file example_manager)
   \<and> (\<exists>w'. delete_all_history example_manager stored_world = Inr (1, w')
          \<and> load_history example_manager w' = Inr ([], w')
          \<and> is_dir (files w') (history_folder example_manager)
          \<and> entries_under (files w') (history_folder example_manager) = [])
   \<and> load_history nested_manager nested_world = Inr ([example_entry], nested_world)
   \<and> parent (history_file nested_manager) = Some (history_folder nested_manager)
   \<and> (\<exists>w'. delete_all_history nested_manager nested_world = Inr (1, w')
          \<and> load_history nested_manager w' = Inr ([], w')
          \<and> entries_under (files w') (history_folder nested_manager)
              = [history_file nested_manager])"
proof -
  have l: "load_history example_manager stored_world = Inr ([example_entry], stored_world)"
    by (simp add: load_history_def stored_world_def example_manager_def)
  have h: "\<not> is_file (files stored_world) (history_folder example_manager)"
          "removable (blocked stored_world) (files stored_world) (history_folder example_manager)"
          "parent_error (files stored_world) (history_folder example_manager) = None"
          "path_exists (files stored_world) (history_folder example_manager)"
          "\<not> lies_under (history_folder example_manager) (history_file example_manager)"
    by (simp_all add: is_file_def removable_def parent_error_def parent_def path_exists_def
          lies_under_def stored_world_def example_manager_def empty_world_def)
  have l': "load_history nested_manager nested_world = Inr ([example_entry], nested_world)"
    by (simp add: load_history_def nested_world_def nested_manager_def)
  have h': "\<not> is_file (files nested_world) (history_folder nested_manager)"
          "removable (blocked nested_world) (files nested_world) (history_folder nested_manager)"
          "parent_error (files nested_world) (history_folder nested_manager) = None"
          "path_exists (files nested_world) (history_folder nested_manager)"
          "parent (history_file nested_manager) = Some (history_folder nested_manager)"
          "lies_under (history_folder nested_manager) (history_file nested_manager)"
          "stored_records nested_manager nested_world = [example_entry]"
    by (simp_all add: is_file_def removable_def parent_error_def parent_def path_exists_def
          lies_under_def nested_world_def nested_manager_def empty_world_def
          stored_records_def)
  from delete_all_history_clears [OF l h(1) h(2) h(3) disjI1 [OF h(4)] disjI1 [OF h(5)]]
       delete_all_history_clears [OF l' h'(1) h'(2) h'(3) disjI1 [OF h'(4)] disjI2 [OF h'(5)]]
  show ?thesis using l h l' h' by auto
qed


subsection \<open>Exporting a record\<close>

lemma render_null_matrix:
  "e_forensic_evidence_matrix entry = JNull \<Longrightarrow> generate_html_report py entry = Inl AttributeError"
  by (simp add: generate_html_report_def dict_get_def)

lemma export_analysis_absent:
  "map_of (files w) (history_file self) = Some (FileNode (Records es))
   \<Longrightarrow> find (\<lambda>entry. e_id entry = aid) es = None
   \<Longrightarrow> export_analysis self py w aid = Inr (None, w)"
  by (simp add: export_analysis_def get_analysis_Records)

lemma export_analysis_found:
  "map_of (files w) (history_file self) = Some (FileNode (Records es))
   \<Longrightarrow> find (\<lambda>entry. e_id entry = aid) es = Some entry
   \<Longrightarrow> export_analysis self py w aid =
       (case generate_html_report py entry of
          Inl e \<Rightarrow> Inl e
        | Inr html_report \<Rightarrow>
            Inr (Some ([(''analysis_report.json'', JsonDump entry),
                        (''analysis_report.html'', HtmlText html_report)] @
                       (if path_exists (files w) (e_artifacts_folder entry)
                        then artifact_entries (files w) (e_artifacts_folder entry) else [])),
                 w))"
  by (simp add: export_analysis_def get_analysis_Records Let_def split: sum.splits)

lemma artifact_entries_names:
  "(name, bytes) \<in> set (artifact_entries fs folder)
   \<Longrightarrow> \<exists>p c. (p, FileNode c) \<in> set fs \<and> lies_under folder p
           \<and> name = ''artifacts/'' @ basename p \<and> bytes = FileBytes c"
  by (auto simp: artifact_entries_def split: fnode.splits if_splits)

text \<open>
  What \<open>export_analysis\<close> returns for a record whose report can be rendered: the record
  as JSON, the report, and one entry per file under the artifact folder; with the folder
  gone, the first two alone.
\<close>

lemma export_analysis_rendered:
  assumes "map_of (files w) (history_file self) = Some (FileNode (Records es))"
      and "find (\<lambda>entry. e_id entry = aid) es = Some entry"
      and "generate_html_report py entry = Inr html_report"
  shows "\<exists>a. export_analysis self py w aid = Inr (Some a, w)
           \<and> take 2 a = [(''analysis_report.json'', JsonDump entry),
                          (''analysis_report.html'', HtmlText html_report)]
           \<and> (path_exists (files w) (e_artifacts_folder entry)
                \<longrightarrow> drop 2 a = artifact_entries (files w) (e_artifacts_folder entry))
           \<and> (\<not> path_exists (files w) (e_artifacts_folder entry) \<longrightarrow> drop 2 a = [])"
  using assms by (simp add: export_analysis_found)

text \<open>The record that the example save stores has no evidence matrix.\<close>

lemma example_export:
  assumes "map_of (files w) ''analysis_history.json''
             = Some (FileNode (Records [history_entry (example_result locs) name None ''run-0''
                  now folder sv]))"
  shows "export_analysis example_manager py w ''run-0'' = Inl AttributeError"
proof -
  let ?e = "history_entry (example_result locs) name None ''run-0'' now folder sv"
  have m: "map_of (files w) (history_file example_manager) = Some (FileNode (Records [?e]))"
    using assms by (simp add: example_manager_def)
  have f: "find (\<lambda>entry. e_id entry = ''run-0'') [?e] = Some ?e" by simp
  have "e_forensic_evidence_matrix ?e = JNull"
    by (simp add: attr_or_null_def example_result_def)
  then show ?thesis
    by (simp add: export_analysis_found [OF m f] render_null_matrix)
qed

subsection \<open>A record without evidence matrix cannot be exported\<close>

text \<open>
  C5 does not hold of the code. \<open>save_analysis\<close> stores \<^verbatim>\<open>None\<close> under
  \<^verbatim>\<open>forensic_evidence_matrix\<close> for a result that lacks the attribute; the renderer reads
  the key with \<^verbatim>\<open>entry.get("forensic_evidence_matrix", {})\<close>, whose default applies to a
  missing key only, and calls \<^verbatim>\<open>.get\<close> on the \<^verbatim>\<open>None\<close> it finds. For such a stored record
  \<open>export_analysis\<close> raises \<^verbatim>\<open>AttributeError\<close> and returns no archive.
\<close>

theorem export_without_matrix_raises:
  "(case save_analysis example_manager example_world (example_result [example_localization])
           ''clip.mp4'' None of
      Inl e \<Rightarrow> False
    | Inr (aid, w') \<Rightarrow> export_analysis example_manager py w' aid = Inl AttributeError)"
proof -
  have "loc_image example_localization = None" by (simp add: example_localization_def)
  then show ?thesis
    by (simp add: example_save) (rule example_export, simp)
qed

text \<open>
  C10 does not hold of the code, by the same defect: with the artifact folder of such a
  record removed, \<open>export_analysis\<close> raises as well.
\<close>

theorem export_missing_folder_raises:
  "(case save_analysis example_manager example_world (example_result [example_localization])
           ''clip.mp4'' None of
      Inl e \<Rightarrow> False
    | Inr (aid, w') \<Rightarrow>
        (case rmtree [] (files w') (path_join ''analysis_artifacts'' aid) of
           Inl e \<Rightarrow> False
         | Inr fs \<Rightarrow>
             \<not> path_exists fs (path_join ''analysis_artifacts'' aid)
             \<and> export_analysis example_manager py (w'\<lparr>files := fs\<rparr>) aid = Inl AttributeError))"
proof -
  have "loc_image example_localization = None" by (simp add: example_localization_def)
  then show ?thesis
    by (simp add: example_save rmtree_def removable_def path_join_def path_exists_def
          lies_under_def)
       (rule example_export, simp)
qed

end
